theory Spec2Isabelle
  imports Complex_Main
begin

section \<open>Python values and exceptions\<close>

text \<open>
  The values the programs handle are the ones Python's JSON decoder produces:
  \<open>None\<close>, booleans, numbers, strings, lists and dictionaries. A dictionary is kept
  as the list of its members in document order; the decoder lets a later member
  with the same key win. An integer literal gives a Python \<open>int\<close>, of any size;
  any other number gives a \<open>float\<close>, kept as the rational it stands for (the
  non-standard literals \<open>NaN\<close> and \<open>Infinity\<close> are not represented).
\<close>

datatype json =
    JNull
  | JBool bool
  | JInt int
  | JFloat rat
  | JStr string
  | JArr "json list"
  | JObj "(string \<times> json) list"

text \<open>A response of the Airflow service: status code, raw text and, when the text
  is valid JSON, the decoded value (\<open>response.json()\<close>).\<close>

datatype response = Response (status_code: nat) (body_text: string) (json_body: "json option")

datatype exn =
    ConnectionError
  | ReadTimeout
  | HTTPError response
  | RequestsJSONDecodeError
  | AttributeError
  | TypeError
  | JSONDecodeError
  | UnicodeDecodeError
  | ValueError
  | OverflowError
  | OSError

text \<open>\<open>requests.exceptions.RequestException\<close> and its subclasses (requests 2.27 and
  later, where the error of \<open>response.json()\<close> is one of them).\<close>

fun is_RequestException :: "exn \<Rightarrow> bool" where
  "is_RequestException ConnectionError = True"
| "is_RequestException ReadTimeout = True"
| "is_RequestException (HTTPError r) = True"
| "is_RequestException RequestsJSONDecodeError = True"
| "is_RequestException e = False"

definition bind :: "exn + 'a \<Rightarrow> ('a \<Rightarrow> exn + 'b) \<Rightarrow> exn + 'b" where
  "bind m f = (case m of Inl e \<Rightarrow> Inl e | Inr v \<Rightarrow> f v)"

text \<open>Truth value of a Python object, as \<open>if x:\<close> and \<open>not x\<close> test it.\<close>

fun truthy :: "json \<Rightarrow> bool" where
  "truthy JNull = False"
| "truthy (JBool b) = b"
| "truthy (JInt n) = (n \<noteq> 0)"
| "truthy (JFloat x) = (x \<noteq> 0)"
| "truthy (JStr s) = (s \<noteq> [])"
| "truthy (JArr xs) = (xs \<noteq> [])"
| "truthy (JObj kvs) = (kvs \<noteq> [])"

definition dict_lookup :: "(string \<times> json) list \<Rightarrow> string \<Rightarrow> json option" where
  "dict_lookup kvs k = map_of (rev kvs) k"

text \<open>\<open>d.get(k)\<close> and \<open>d.get(k, default)\<close> on a dictionary.\<close>

definition dict_get :: "(string \<times> json) list \<Rightarrow> string \<Rightarrow> json" where
  "dict_get kvs k = (case dict_lookup kvs k of None \<Rightarrow> JNull | Some v \<Rightarrow> v)"

definition dict_get_default :: "(string \<times> json) list \<Rightarrow> string \<Rightarrow> json \<Rightarrow> json" where
  "dict_get_default kvs k d = (case dict_lookup kvs k of None \<Rightarrow> d | Some v \<Rightarrow> v)"

text \<open>\<open>x.get(k)\<close> and \<open>x.get(k, default)\<close> on any decoded value: only a dictionary
  has the attribute.\<close>

fun attr_get :: "json \<Rightarrow> string \<Rightarrow> exn + json" where
  "attr_get (JObj kvs) k = Inr (dict_get kvs k)"
| "attr_get v k = Inl AttributeError"

fun attr_get_default :: "json \<Rightarrow> string \<Rightarrow> json \<Rightarrow> exn + json" where
  "attr_get_default (JObj kvs) k d = Inr (dict_get_default kvs k d)"
| "attr_get_default v k d = Inl AttributeError"

section \<open>The Airflow service as seen through requests\<close>

text \<open>What one HTTP call meets: no connection, a read timeout, or a response.\<close>

datatype http_reply = Refused | TimedOut | Answered response

definition send :: "http_reply \<Rightarrow> exn + response" where
  "send reply = (case reply of
      Refused \<Rightarrow> Inl ConnectionError
    | TimedOut \<Rightarrow> Inl ReadTimeout
    | Answered r \<Rightarrow> Inr r)"

definition raise_for_status :: "response \<Rightarrow> exn + unit" where
  "raise_for_status r =
     (if 400 \<le> status_code r \<and> status_code r < 600 then Inl (HTTPError r) else Inr ())"

definition response_json :: "response \<Rightarrow> exn + json" where
  "response_json r = (case json_body r of None \<Rightarrow> Inl RequestsJSONDecodeError | Some v \<Rightarrow> Inr v)"

text \<open>The three statements every call site runs in its \<open>try\<close> block: the request,
  \<open>response.raise_for_status()\<close>, \<open>response.json()\<close>.\<close>

definition fetch_json :: "http_reply \<Rightarrow> exn + json" where
  "fetch_json reply =
     bind (send reply) (\<lambda>r. bind (raise_for_status r) (\<lambda>_. response_json r))"

text \<open>The service: its answer to the trigger request and to the \<open>k\<close>-th state
  query, each with the time the call takes (milliseconds). The \<open>timeout=10\<close> that
  every call passes to requests bounds the wait for the connection and the wait
  for each piece of the answer, not the call as a whole, so the time of a call is
  not bounded by it.\<close>

record airflow =
  on_post :: "nat \<times> http_reply"
  on_get :: "nat \<Rightarrow> nat \<times> http_reply"

record airflow_config =
  url :: string
  username :: string
  password :: string

text \<open>
  The two requests: \<open>POST {url}/api/v1/dags/{dag_id}/dagRuns\<close> with its
  \<open>logical_date\<close> and \<open>note\<close>, and \<open>GET {url}/api/v1/dags/{dag_id}/dagRuns/{dag_run_id}\<close>;
  each with the credentials and the timeout in seconds. The pieces of the URL are
  kept apart instead of being formatted into one string.
\<close>

datatype request =
    StartRun string string nat string "string \<times> string" nat
  | RunState string string json "string \<times> string" nat

section \<open>The management command \<open>trigger_sync\<close>\<close>

text \<open>
  The lines the command writes, one constructor per message of the source with the
  values the message interpolates. \<open>info\<close> and \<open>error\<close> come from the command
  base class; every call in the source is followed by further statements, so they
  write their line and return.
\<close>

datatype level = INFO | ERROR

datatype msg =
    Triggering string  \<comment> \<open>Triggering CVE sync DAG on {url}\<close>
  | FailedToTriggerDag exn  \<comment> \<open>Failed to trigger DAG: {e}\<close>
  | ResponseText string  \<comment> \<open>Response: {e.response.text}\<close>
  | FailedToTriggerRun  \<comment> \<open>Failed to trigger DAG run\<close>
  | DagRunTriggered json  \<comment> \<open>DAG run triggered: {dag_run_id}\<close>
  | StateLine json  \<comment> \<open>State: {state}\<close>
  | ViewInUI string json  \<comment> \<open>View in Airflow UI: {url}/dags/opencve/grid?dag_run_id={dag_run_id}\<close>
  | Waiting int  \<comment> \<open>Waiting for DAG run to complete (timeout: {timeout}s)...\<close>
  | FailedToGetStateExn exn  \<comment> \<open>Failed to get DAG run state: {e}\<close>
  | FailedToGetState  \<comment> \<open>Failed to get DAG run state\<close>
  | Completed nat  \<comment> \<open>DAG run completed successfully in {elapsed}s\<close>
  | RunFailed nat  \<comment> \<open>DAG run failed after {elapsed}s\<close>
  | StateElapsed json nat  \<comment> \<open>State: {state} (elapsed: {elapsed}s)\<close>
  | TimeoutReached int  \<comment> \<open>Timeout reached ({timeout}s)\<close>
  | DidNotComplete  \<comment> \<open>DAG run did not complete successfully\<close>

text \<open>
  The world the command runs in: the clock (\<open>time.time()\<close>, in milliseconds), the
  lines written so far, the HTTP requests issued so far with the time each was
  issued, and the number of state queries the service has answered. Time passes
  in two ways only: an HTTP call takes the time the service gives for it, and
  \<open>time.sleep(2)\<close> takes two seconds. Elapsed times in the lines are in
  milliseconds, not rounded to tenths of a second as the source prints them.
\<close>

record world =
  clock :: nat
  out :: "(level \<times> msg) list"
  sent :: "(nat \<times> request) list"
  served :: nat

definition info :: "msg \<Rightarrow> world \<Rightarrow> world" where
  "info m w = w\<lparr>out := out w @ [(INFO, m)]\<rparr>"

definition error :: "msg \<Rightarrow> world \<Rightarrow> world" where
  "error m w = w\<lparr>out := out w @ [(ERROR, m)]\<rparr>"

definition sleep :: "nat \<Rightarrow> world \<Rightarrow> world" where
  "sleep seconds w = w\<lparr>clock := clock w + seconds * 1000\<rparr>"

definition lookup_default :: "(string \<rightharpoonup> string) \<Rightarrow> string \<Rightarrow> string \<Rightarrow> string" where
  "lookup_default environ k d = (case environ k of None \<Rightarrow> d | Some v \<Rightarrow> v)"

definition get_airflow_config :: "(string \<rightharpoonup> string) \<Rightarrow> airflow_config" where
  "get_airflow_config environ =
     \<lparr>url = lookup_default environ ''AIRFLOW_URL'' ''http://localhost:8080'',
      username = lookup_default environ ''AIRFLOW_USERNAME'' ''airflow'',
      password = lookup_default environ ''AIRFLOW_PASSWORD'' ''airflow''\<rparr>"

definition trigger_dag :: "airflow \<Rightarrow> airflow_config \<Rightarrow> world \<Rightarrow> (exn + json) \<times> world" where
  "trigger_dag env airflow_config w =
     (let dag_id = ''opencve'';
          w1 = w\<lparr>clock := clock w + fst (on_post env),
                 sent := sent w @
                   [(clock w, StartRun (url airflow_config) dag_id (clock w)
                       ''Manual trigger via Django management command''
                       (username airflow_config, password airflow_config) 10)]\<rparr>
      in case fetch_json (snd (on_post env)) of
           Inr v \<Rightarrow> (Inr v, w1)
         | Inl e \<Rightarrow>
             if is_RequestException e then
               (let w2 = error (FailedToTriggerDag e) w1;
                    w3 = (case e of HTTPError r \<Rightarrow> error (ResponseText (body_text r)) w2 | _ \<Rightarrow> w2)
                in (Inr JNull, w3))
             else (Inl e, w1))"

definition get_dag_run_state ::
  "airflow \<Rightarrow> airflow_config \<Rightarrow> json \<Rightarrow> world \<Rightarrow> (exn + json) \<times> world" where
  "get_dag_run_state env airflow_config dag_run_id w =
     (let dag_id = ''opencve'';
          w1 = w\<lparr>clock := clock w + fst (on_get env (served w)),
                 sent := sent w @
                   [(clock w, RunState (url airflow_config) dag_id dag_run_id
                       (username airflow_config, password airflow_config) 10)],
                 served := Suc (served w)\<rparr>
      in case bind (fetch_json (snd (on_get env (served w)))) (\<lambda>data. attr_get data ''state'') of
           Inr state \<Rightarrow> (Inr state, w1)
         | Inl e \<Rightarrow>
             if is_RequestException e then (Inr JNull, error (FailedToGetStateExn e) w1)
             else (Inl e, w1))"

text \<open>The \<open>while\<close> loop of \<open>wait_for_completion\<close>; \<open>timeout\<close> is in seconds.\<close>

function wait_loop ::
  "airflow \<Rightarrow> airflow_config \<Rightarrow> json \<Rightarrow> int \<Rightarrow> nat \<Rightarrow> world \<Rightarrow> (exn + bool) \<times> world" where
  "wait_loop env airflow_config dag_run_id timeout start_time w =
     (if int (clock w) - int start_time < timeout * 1000 then
        (case get_dag_run_state env airflow_config dag_run_id w of
           (Inl e, w1) \<Rightarrow> (Inl e, w1)
         | (Inr state, w1) \<Rightarrow>
             if state = JNull then (Inr False, error FailedToGetState w1)
             else if state = JStr ''success'' then
               (Inr True, info (Completed (clock w1 - start_time)) w1)
             else if state = JStr ''failed'' then
               (Inr False, error (RunFailed (clock w1 - start_time)) w1)
             else wait_loop env airflow_config dag_run_id timeout start_time
                    (sleep 2 (info (StateElapsed state (clock w1 - start_time)) w1)))
      else (Inr False, error (TimeoutReached timeout) w))"
  by pat_completeness auto
termination
proof (relation "measure (\<lambda>(env, cfg, rid, timeout, start_time, w).
                   nat (timeout * 1000 - (int (clock w) - int start_time)))", goal_cases)
  case 1
  show ?case by simp
next
  case (2 env cfg rid timeout start_time w x1 x2 state)
  from 2 have "get_dag_run_state env cfg rid w = (Inr state, x2)" by simp
  then have "clock x2 = clock w + fst (on_get env (served w))"
    by (auto simp: get_dag_run_state_def Let_def error_def split: sum.splits if_splits)
  with 2 show ?case by (simp add: sleep_def info_def)
qed

declare wait_loop.simps [simp del]

definition wait_for_completion ::
  "airflow \<Rightarrow> airflow_config \<Rightarrow> json \<Rightarrow> int \<Rightarrow> world \<Rightarrow> (exn + bool) \<times> world" where
  "wait_for_completion env airflow_config dag_run_id timeout w =
     (let w1 = info (Waiting timeout) w;
          start_time = clock w1
      in wait_loop env airflow_config dag_run_id timeout start_time w1)"

record options =
  wait :: bool
  timeout :: int

definition handle :: "airflow \<Rightarrow> (string \<rightharpoonup> string) \<Rightarrow> options \<Rightarrow> world \<Rightarrow> (exn + unit) \<times> world" where
  "handle env environ opts w =
     (let airflow_config = get_airflow_config environ;
          w1 = info (Triggering (url airflow_config)) w
      in case trigger_dag env airflow_config w1 of
           (Inl e, w2) \<Rightarrow> (Inl e, w2)
         | (Inr dag_run, w2) \<Rightarrow>
             if \<not> truthy dag_run then (Inr (), error FailedToTriggerRun w2)
             else
               (case bind (attr_get dag_run ''dag_run_id'') (\<lambda>dag_run_id.
                       bind (attr_get dag_run ''state'') (\<lambda>state. Inr (dag_run_id, state))) of
                  Inl e \<Rightarrow> (Inl e, w2)
                | Inr (dag_run_id, state) \<Rightarrow>
                    (let w3 = info (DagRunTriggered dag_run_id) w2;
                         w4 = info (StateLine state) w3;
                         w5 = info (ViewInUI (url airflow_config) dag_run_id) w4
                     in if wait opts then
                          (case wait_for_completion env airflow_config dag_run_id (timeout opts) w5 of
                             (Inl e, w6) \<Rightarrow> (Inl e, w6)
                           | (Inr success, w6) \<Rightarrow>
                               if \<not> success then (Inr (), error DidNotComplete w6)
                               else (Inr (), w6))
                        else (Inr (), w5))))"

text \<open>
  The command is run by Django's \<open>manage.py\<close>: a \<open>handle\<close> that returns ends the
  process with status 0, an exception that escapes it ends the process with a
  traceback and a non-zero status.
\<close>

definition exit_status :: "exn + unit \<Rightarrow> nat" where
  "exit_status r = (case r of Inr _ \<Rightarrow> 0 | Inl e \<Rightarrow> 1)"

section \<open>The view \<open>TriggerSyncView\<close>\<close>

text \<open>
  The JSON payload of the view's answer, one constructor per \<open>JsonResponse\<close> of the
  source: the success payload with \<open>dag_run_id\<close>, \<open>state\<close> and the base of the
  Airflow link, and the four error payloads. \<open>error_detail\<close> is the text of the
  Airflow error: a member of the error body, the raw body, or the text of the
  exception.
\<close>

datatype error_detail = Detail json | RawText string | ExcText

datatype view_body =
    SyncTriggered json json string
  | ConnectFailed
  | AirflowApiError error_detail
  | TriggerSyncFailed exn
  | UnexpectedError

datatype json_response = JsonResponse (content: view_body) (status: nat)

fun success :: "view_body \<Rightarrow> bool" where
  "success (SyncTriggered dag_run_id state link) = True"
| "success b = False"

definition TriggerSyncView_get_airflow_config :: "(string \<rightharpoonup> string) \<Rightarrow> airflow_config" where
  "TriggerSyncView_get_airflow_config environ =
     \<lparr>url = lookup_default environ ''AIRFLOW_URL'' ''http://airflow-webserver:8080'',
      username = lookup_default environ ''AIRFLOW_USERNAME'' ''airflow'',
      password = lookup_default environ ''AIRFLOW_PASSWORD'' ''airflow''\<rparr>"

definition http_error_detail :: "response \<Rightarrow> error_detail" where
  "http_error_detail r =
     (case json_body r of
        Some (JObj kvs) \<Rightarrow>
          (case dict_lookup kvs ''detail'' of
             Some v \<Rightarrow> Detail v
           | None \<Rightarrow> (case dict_lookup kvs ''title'' of Some v \<Rightarrow> Detail v | None \<Rightarrow> ExcText))
      | _ \<Rightarrow> if body_text r \<noteq> [] then RawText (body_text r) else ExcText)"

definition post :: "airflow \<Rightarrow> (string \<rightharpoonup> string) \<Rightarrow> string \<Rightarrow> world \<Rightarrow> json_response \<times> world" where
  "post env environ user w =
     (let airflow_config = TriggerSyncView_get_airflow_config environ;
          dag_id = ''opencve'';
          w1 = w\<lparr>clock := clock w + fst (on_post env),
                 sent := sent w @
                   [(clock w, StartRun (url airflow_config) dag_id (clock w)
                       (''Manual trigger by '' @ user @ '' via web UI'')
                       (username airflow_config, password airflow_config) 10)]\<rparr>
      in case bind (fetch_json (snd (on_post env))) (\<lambda>dag_run.
                bind (attr_get dag_run ''dag_run_id'') (\<lambda>dag_run_id.
                bind (attr_get dag_run ''state'') (\<lambda>state. Inr (dag_run_id, state)))) of
           Inr (dag_run_id, state) \<Rightarrow>
             (JsonResponse (SyncTriggered dag_run_id state (url airflow_config)) 200, w1)
         | Inl ConnectionError \<Rightarrow> (JsonResponse ConnectFailed 503, w1)
         | Inl (HTTPError r) \<Rightarrow>
             (JsonResponse (AirflowApiError (http_error_detail r)) (status_code r), w1)
         | Inl e \<Rightarrow>
             if is_RequestException e then (JsonResponse (TriggerSyncFailed e) 500, w1)
             else (JsonResponse UnexpectedError 500, w1))"

section \<open>The webhook test server\<close>

datatype color = YELLOW | RED | GREEN

text \<open>The comparisons of \<open>get_severity_color\<close> on a number; a Boolean compares as 1
  or 0, and a string, list or dictionary cannot be compared with a number.\<close>

definition severity :: "rat \<Rightarrow> color" where
  "severity score =
     (if score \<ge> 9 then RED else if score \<ge> 7 then RED
      else if score \<ge> 4 then YELLOW else GREEN)"

fun get_severity_color :: "json \<Rightarrow> exn + color" where
  "get_severity_color JNull = Inr YELLOW"
| "get_severity_color (JInt score) = Inr (severity (of_int score))"
| "get_severity_color (JFloat score) = Inr (severity score)"
| "get_severity_color (JBool b) = Inr (severity (if b then 1 else 0))"
| "get_severity_color v = Inl TypeError"

text \<open>The keys of a dictionary, each once, in the order of first appearance.\<close>

definition keys :: "(string \<times> json) list \<Rightarrow> string list" where
  "keys kvs = rev (remdups (rev (map fst kvs)))"

text \<open>\<open>len(x)\<close>, iteration over \<open>x\<close>, and \<open>', '.join(x)\<close>, which needs an iterable
  of strings. The joined text itself is not kept.\<close>

fun py_len :: "json \<Rightarrow> exn + nat" where
  "py_len (JStr s) = Inr (length s)"
| "py_len (JArr xs) = Inr (length xs)"
| "py_len (JObj kvs) = Inr (length (keys kvs))"
| "py_len v = Inl TypeError"

fun py_iter :: "json \<Rightarrow> exn + json list" where
  "py_iter (JStr s) = Inr (map (\<lambda>c. JStr [c]) s)"
| "py_iter (JArr xs) = Inr xs"
| "py_iter (JObj kvs) = Inr (map JStr (keys kvs))"
| "py_iter v = Inl TypeError"

fun is_str :: "json \<Rightarrow> bool" where
  "is_str (JStr s) = True"
| "is_str v = False"

fun all_str :: "json list \<Rightarrow> bool" where
  "all_str [] = True"
| "all_str (x # xs) = (is_str x \<and> all_str xs)"

definition py_join :: "json \<Rightarrow> exn + unit" where
  "py_join v = bind (py_iter v) (\<lambda>items. if all_str items then Inr () else Inl TypeError)"

text \<open>Runs \<open>f\<close> on each element in turn and stops at the first exception.\<close>

fun each :: "('a \<Rightarrow> exn + 'b) \<Rightarrow> 'a list \<Rightarrow> exn + 'b list" where
  "each f [] = Inr []"
| "each f (x # xs) = bind (f x) (\<lambda>y. bind (each f xs) (\<lambda>ys. Inr (y # ys)))"

text \<open>The description preview: \<open>description[:200] + "..."\<close> when the description is
  longer than 200, which only a string survives (a list cannot be added to a
  string, a dictionary cannot be sliced).\<close>

definition desc_preview :: "json \<Rightarrow> exn + unit" where
  "desc_preview description =
     bind (py_len description) (\<lambda>n.
       if n > 200 then (if is_str description then Inr () else Inl TypeError) else Inr ())"

text \<open>The display of the score, \<open>f"{cvss31:.1f}"\<close> unless the score is \<open>None\<close>. An
  \<open>int\<close> is converted to a \<open>float\<close> first, which fails when it rounds beyond the
  largest \<open>float\<close>; a string, a list and a dictionary do not take the format.\<close>

fun cvss_display :: "json \<Rightarrow> exn + unit" where
  "cvss_display JNull = Inr ()"
| "cvss_display (JBool b) = Inr ()"
| "cvss_display (JInt n) =
     (if \<bar>n\<bar> \<ge> 2 ^ 1024 - 2 ^ 970 then Inl OverflowError else Inr ())"
| "cvss_display (JFloat x) = Inr ()"
| "cvss_display (JStr s) = Inl ValueError"
| "cvss_display v = Inl TypeError"

definition event_detail :: "json \<Rightarrow> exn + unit" where
  "event_detail event =
     bind (attr_get_default event ''type'' (JStr ''unknown'')) (\<lambda>event_type.
     bind (attr_get_default event ''data'' (JObj [])) (\<lambda>event_data. Inr ()))"

text \<open>The body of the loop over \<open>changes\<close> in \<open>format_cve_alert\<close>.\<close>

definition format_change :: "json \<Rightarrow> exn + unit" where
  "format_change change =
     bind (attr_get_default change ''cve'' (JObj [])) (\<lambda>cve.
     bind (attr_get_default cve ''cve_id'' (JStr ''UNKNOWN'')) (\<lambda>cve_id.
     bind (attr_get_default cve ''description'' (JStr ''No description available''))
       (\<lambda>description.
     bind (attr_get cve ''cvss31'') (\<lambda>cvss31.
     bind (attr_get_default cve ''subscriptions'' (JObj [])) (\<lambda>subs.
     bind (attr_get_default subs ''human'' (JArr [])) (\<lambda>subscriptions.
     bind (attr_get_default change ''events'' (JArr [])) (\<lambda>events.
     bind (get_severity_color cvss31) (\<lambda>severity_color.
     bind (cvss_display cvss31) (\<lambda>display.
     bind (desc_preview description) (\<lambda>_.
     bind (if truthy subscriptions then py_join subscriptions else Inr ()) (\<lambda>_.
     if truthy events then
       bind (py_iter events) (\<lambda>es.
       bind (each (\<lambda>e. attr_get_default e ''type'' (JStr ''unknown'')) es) (\<lambda>event_types.
       bind (py_join (JArr event_types)) (\<lambda>_.
       bind (each event_detail es) (\<lambda>_. Inr ()))))
     else Inr ())))))))))))"

text \<open>\<open>format_cve_alert\<close>, reduced to whether it returns or raises (the text it
  builds is printed and not used again).\<close>

definition format_cve_alert :: "json \<Rightarrow> exn + unit" where
  "format_cve_alert payload =
     bind (attr_get_default payload ''organization'' (JStr ''N/A'')) (\<lambda>_.
     bind (attr_get_default payload ''project'' (JStr ''N/A'')) (\<lambda>_.
     bind (attr_get_default payload ''notification'' (JStr ''N/A'')) (\<lambda>_.
     bind (attr_get_default payload ''title'' (JStr ''N/A'')) (\<lambda>_.
     bind (attr_get_default payload ''period'' (JObj [])) (\<lambda>period.
     bind (attr_get_default period ''start'' (JStr ''N/A'')) (\<lambda>_.
     bind (attr_get_default period ''end'' (JStr ''N/A'')) (\<lambda>_.
     bind (attr_get_default payload ''matched_subscriptions'' (JObj [])) (\<lambda>matched.
     bind (attr_get_default matched ''human'' (JArr [])) (\<lambda>human.
     bind (py_join human) (\<lambda>_.
     bind (attr_get_default payload ''changes'' (JArr [])) (\<lambda>changes.
     bind (py_len changes) (\<lambda>n.
     bind (py_iter changes) (\<lambda>cs.
     bind (each format_change cs) (\<lambda>_. Inr ()))))))))))))))"

text \<open>
  A request as the handler sees it: the method (verb), the path component of the URL
  (\<open>urlparse(self.path).path\<close>), and what reading the body gives: nothing when
  the \<open>Content-Length\<close> header is not an integer, otherwise bytes that are not
  UTF-8, text that is not JSON, or text that is JSON, with its value. \<open>writable\<close>
  says whether the file for the payload can be written when the request is
  handled.
\<close>

datatype meth = GET | POST | OtherMethod

datatype payload = Undecodable | Malformed | Parsed json

record http_request =
  verb :: meth
  path :: string
  body :: "payload option"
  writable :: bool

text \<open>\<open>json.loads(body.decode("utf-8"))\<close>.\<close>

fun loads :: "payload \<Rightarrow> exn + json" where
  "loads Undecodable = Inl UnicodeDecodeError"
| "loads Malformed = Inl JSONDecodeError"
| "loads (Parsed v) = Inr v"

text \<open>The answer: a status code alone, or the 200 answer of a processed webhook
  with its \<open>cve_count\<close> and \<open>received_count\<close>.\<close>

datatype wh_response = Status nat | Processed nat nat

text \<open>The two \<open>except\<close> clauses of \<open>do_POST\<close>: 400 for a JSON decoding error, 500
  for any other exception.\<close>

definition except_status :: "exn \<Rightarrow> wh_response" where
  "except_status e = (if e = JSONDecodeError then Status 400 else Status 500)"

record server =
  received_count :: nat
  saved :: "json list"

definition do_GET :: "http_request \<Rightarrow> server \<Rightarrow> (exn + wh_response) \<times> server" where
  "do_GET rq s = (Inr (Status 200), s)"

text \<open>\<open>do_POST\<close>. The conversion of \<open>Content-Length\<close> stands before the \<open>try\<close>
  block, so its exception leaves the handler; everything after it is inside.\<close>

definition do_POST :: "http_request \<Rightarrow> server \<Rightarrow> (exn + wh_response) \<times> server" where
  "do_POST rq s =
     (if path rq \<noteq> ''/webhook'' then (Inr (Status 404), s)
      else case body rq of
          None \<Rightarrow> (Inl ValueError, s)
        | Some b \<Rightarrow>
            (case loads b of
               Inl e \<Rightarrow> (Inr (except_status e), s)
             | Inr payload \<Rightarrow>
                 (let s1 = s\<lparr>received_count := received_count s + 1\<rparr>
                  in case format_cve_alert payload of
                       Inl e \<Rightarrow> (Inr (except_status e), s1)
                     | Inr _ \<Rightarrow>
                         if \<not> writable rq then (Inr (except_status OSError), s1)
                         else
                           (let s2 = s1\<lparr>saved := saved s1 @ [payload]\<rparr>
                            in case bind (attr_get_default payload ''changes'' (JArr [])) py_len of
                                 Inl e \<Rightarrow> (Inr (except_status e), s2)
                               | Inr cve_count \<Rightarrow>
                                   (Inr (Processed cve_count (received_count s2)), s2)))))"

text \<open>The dispatch of the base handler: \<open>do_GET\<close>, \<open>do_POST\<close>, and 501 for a
  verb the handler does not define.\<close>

definition handle_request :: "http_request \<Rightarrow> server \<Rightarrow> (exn + wh_response) \<times> server" where
  "handle_request rq s =
     (case verb rq of
        GET \<Rightarrow> do_GET rq s
      | POST \<Rightarrow> do_POST rq s
      | OtherMethod \<Rightarrow> (Inr (Status 501), s))"

text \<open>The server handles the requests one after the other.\<close>

fun serve :: "http_request list \<Rightarrow> server \<Rightarrow> (exn + wh_response) list \<times> server" where
  "serve [] s = ([], s)"
| "serve (rq # rqs) s =
     (let (r, s1) = handle_request rq s;
          (rs, s2) = serve rqs s1
      in (r # rs, s2))"

section \<open>Notions used in the statements\<close>

text \<open>The world right after a state query was issued and answered: the clock has
  advanced by the time the call took, the request is recorded, the service has
  answered one more query.\<close>

definition after_query :: "airflow \<Rightarrow> airflow_config \<Rightarrow> json \<Rightarrow> world \<Rightarrow> world" where
  "after_query env cfg rid w =
     w\<lparr>clock := clock w + fst (on_get env (served w)),
       sent := sent w @
         [(clock w, RunState (url cfg) ''opencve'' rid (username cfg, password cfg) 10)],
       served := Suc (served w)\<rparr>"

text \<open>The world right after the trigger request was issued and answered.\<close>

definition after_post :: "airflow \<Rightarrow> airflow_config \<Rightarrow> string \<Rightarrow> world \<Rightarrow> world" where
  "after_post env cfg note w =
     w\<lparr>clock := clock w + fst (on_post env),
       sent := sent w @
         [(clock w, StartRun (url cfg) ''opencve'' (clock w) note (username cfg, password cfg) 10)]\<rparr>"

text \<open>The world in which \<open>handle\<close> has triggered the run and written its three
  lines about it, before it looks at the \<open>wait\<close> option.\<close>

definition triggered :: "airflow \<Rightarrow> (string \<rightharpoonup> string) \<Rightarrow> (string \<times> json) list \<Rightarrow> world \<Rightarrow> world" where
  "triggered env environ kvs w =
     (let cfg = get_airflow_config environ;
          dag_run_id = dict_get kvs ''dag_run_id''
      in info (ViewInUI (url cfg) dag_run_id)
           (info (StateLine (dict_get kvs ''state''))
              (info (DagRunTriggered dag_run_id)
                 (after_post env cfg ''Manual trigger via Django management command''
                    (info (Triggering (url cfg)) w)))))"

text \<open>What the \<open>try\<close> block of \<open>get_dag_run_state\<close> computes from a reply.\<close>

definition read_state :: "http_reply \<Rightarrow> exn + json" where
  "read_state reply = bind (fetch_json reply) (\<lambda>data. attr_get data ''state'')"

text \<open>A reply that makes the loop poll again: a state that is present and is
  neither \<open>success\<close> nor \<open>failed\<close>.\<close>

definition pending :: "http_reply \<Rightarrow> bool" where
  "pending reply =
     (case read_state reply of
        Inr s \<Rightarrow> s \<noteq> JNull \<and> s \<noteq> JStr ''success'' \<and> s \<noteq> JStr ''failed''
      | Inl e \<Rightarrow> False)"

text \<open>A request that the webhook server counts: a POST to \<open>/webhook\<close> whose body
  decodes to a JSON value.\<close>

text \<open>A result that is not a JSON decoding error.\<close>

definition no_decode_error :: "exn + 'a \<Rightarrow> bool" where
  "no_decode_error r = (case r of Inl e \<Rightarrow> e \<noteq> JSONDecodeError | Inr v \<Rightarrow> True)"

definition is_delivery :: "http_request \<Rightarrow> bool" where
  "is_delivery rq =
     (verb rq = POST \<and> path rq = ''/webhook'' \<and>
      (case body rq of Some (Parsed v) \<Rightarrow> True | _ \<Rightarrow> False))"

section \<open>The counter of the webhook test server\<close>

text \<open>After the body was decoded, nothing in the \<open>try\<close> block raises a JSON
  decoding error: the formatting raises attribute, type, value and overflow
  errors only.\<close>

lemma nde_Inr: "no_decode_error (Inr v)"
  by (simp add: no_decode_error_def)

lemma nde_bind:
  "no_decode_error m \<Longrightarrow> (\<And>v. no_decode_error (f v)) \<Longrightarrow> no_decode_error (bind m f)"
  by (cases m) (simp_all add: bind_def no_decode_error_def)

lemma nde_if:
  "no_decode_error a \<Longrightarrow> no_decode_error b \<Longrightarrow> no_decode_error (if c then a else b)"
  by simp

lemma nde_attr_get: "no_decode_error (attr_get v k)"
  by (cases v) (simp_all add: no_decode_error_def)

lemma nde_attr_get_default: "no_decode_error (attr_get_default v k d)"
  by (cases v) (simp_all add: no_decode_error_def)

lemma nde_py_len: "no_decode_error (py_len v)"
  by (cases v) (simp_all add: no_decode_error_def)

lemma nde_py_iter: "no_decode_error (py_iter v)"
  by (cases v) (simp_all add: no_decode_error_def)

lemma nde_TypeError: "no_decode_error (Inl TypeError)"
  by (simp add: no_decode_error_def)

lemma nde_py_join: "no_decode_error (py_join v)"
  unfolding py_join_def by (intro nde_bind nde_py_iter nde_if nde_Inr nde_TypeError)

lemma nde_get_severity_color: "no_decode_error (get_severity_color v)"
  by (cases v) (simp_all add: no_decode_error_def)

lemma nde_cvss_display: "no_decode_error (cvss_display v)"
  by (cases v) (simp_all add: no_decode_error_def)

lemma nde_desc_preview: "no_decode_error (desc_preview v)"
  unfolding desc_preview_def by (intro nde_bind nde_py_len nde_if nde_Inr nde_TypeError)

lemma nde_each: "(\<And>x. no_decode_error (f x)) \<Longrightarrow> no_decode_error (each f xs)"
  by (induction xs) (auto intro!: nde_bind nde_Inr)

lemma nde_event_detail: "no_decode_error (event_detail v)"
  unfolding event_detail_def by (intro nde_bind nde_attr_get_default nde_Inr)

lemma nde_format_change: "no_decode_error (format_change v)"
  unfolding format_change_def
  by (intro nde_bind nde_attr_get_default nde_attr_get nde_get_severity_color nde_cvss_display
      nde_desc_preview
      nde_if nde_py_join nde_py_iter nde_each nde_event_detail nde_Inr)

lemma nde_format_cve_alert: "no_decode_error (format_cve_alert v)"
  unfolding format_cve_alert_def
  by (intro nde_bind nde_attr_get_default nde_py_join nde_py_len nde_py_iter nde_each
      nde_format_change nde_Inr)

lemma format_cve_alert_status:
  "format_cve_alert v = Inl e \<Longrightarrow> except_status e = Status 500"
  using nde_format_cve_alert [of v] by (simp add: no_decode_error_def except_status_def)

lemma cve_count_status:
  "bind (attr_get_default v ''changes'' (JArr [])) py_len = Inl e \<Longrightarrow> except_status e = Status 500"
  using nde_bind [OF nde_attr_get_default, of py_len v "''changes''" "JArr []"] nde_py_len
  by (simp add: no_decode_error_def except_status_def)

lemma loads_status:
  "loads b = Inl e \<Longrightarrow>
     except_status e = (if b = Malformed then Status 400 else Status 500)"
  by (cases b) (auto simp: except_status_def)

lemma handle_request_count:
  "received_count (snd (handle_request rq s)) =
     received_count s + (if is_delivery rq then 1 else 0)"
  by (cases "body rq"; cases "the (body rq)")
     (simp_all add: handle_request_def do_GET_def do_POST_def is_delivery_def Let_def
        split: meth.splits sum.splits)

lemma serve_count:
  "received_count (snd (serve rqs s)) = received_count s + length (filter is_delivery rqs)"
proof (induction rqs arbitrary: s)
  case Nil
  show ?case by simp
next
  case (Cons rq rqs)
  obtain r s1 where h: "handle_request rq s = (r, s1)" by (cases "handle_request rq s")
  obtain rs s2 where t: "serve rqs s1 = (rs, s2)" by (cases "serve rqs s1")
  have "received_count s1 = received_count s + (if is_delivery rq then 1 else 0)"
    using handle_request_count [of rq s] h by simp
  moreover have "received_count s2 = received_count s1 + length (filter is_delivery rqs)"
    using Cons.IH [of s1] t by simp
  ultimately show ?case using h t by simp
qed

lemma status_404_unchanged:
  "fst (handle_request rq s) = Inr (Status 404) \<Longrightarrow> snd (handle_request rq s) = s"
  by (cases "body rq"; cases "the (body rq)")
     (auto simp add: handle_request_def do_GET_def do_POST_def Let_def except_status_def
      split: meth.splits sum.splits if_splits)

lemma status_400_unchanged:
  "fst (handle_request rq s) = Inr (Status 400) \<Longrightarrow> snd (handle_request rq s) = s"
  by (cases "body rq"; cases "the (body rq)")
     (auto simp add: handle_request_def do_GET_def do_POST_def Let_def
      split: meth.splits sum.splits if_splits
      dest: format_cve_alert_status cve_count_status simp: except_status_def)

text \<open>
  C10 (as amended). Handling one request adds one to \<open>received_count\<close> exactly
  when the request is a POST to \<open>/webhook\<close> whose body decodes to JSON, and leaves
  it unchanged otherwise; an answer 404 or 400 leaves the counter unchanged. Over
  any sequence of requests the counter never decreases and ends at its initial
  value plus the number of such requests, whatever the answer to each of them was
  (the count is taken before the payload is formatted and saved).
\<close>

theorem received_count_counts_decoded_posts:
  "received_count (snd (handle_request rq s)) =
       received_count s + (if is_delivery rq then 1 else 0)
   \<and> (fst (handle_request rq1 s) = Inr (Status 404) \<longrightarrow>
        received_count (snd (handle_request rq1 s)) = received_count s)
   \<and> (fst (handle_request rq2 s) = Inr (Status 400) \<longrightarrow>
        received_count (snd (handle_request rq2 s)) = received_count s)
   \<and> received_count s \<le> received_count (snd (serve rqs s))
   \<and> received_count (snd (serve rqs s)) = received_count s + length (filter is_delivery rqs)"
  by (simp add: handle_request_count serve_count status_404_unchanged status_400_unchanged)

theorem received_count_counts_decoded_posts_witness:
  "fst (handle_request \<lparr>verb = POST, path = ''/other'', body = Some (Parsed (JObj [])), writable = True\<rparr>
          \<lparr>received_count = 3, saved = []\<rparr>) = Inr (Status 404)
   \<and> fst (handle_request \<lparr>verb = POST, path = ''/webhook'', body = Some Malformed, writable = True\<rparr>
          \<lparr>received_count = 3, saved = []\<rparr>) = Inr (Status 400)
   \<and> received_count (snd (serve
        [\<lparr>verb = POST, path = ''/other'', body = Some (Parsed (JObj [])), writable = True\<rparr>,
         \<lparr>verb = POST, path = ''/webhook'', body = Some Malformed, writable = True\<rparr>,
         \<lparr>verb = POST, path = ''/webhook'', body = Some (Parsed (JObj [])), writable = True\<rparr>,
         \<lparr>verb = GET, path = ''/health'', body = Some (Parsed (JObj [])), writable = True\<rparr>]
        \<lparr>received_count = 3, saved = []\<rparr>)) = 4"
  using received_count_counts_decoded_posts
    [of "\<lparr>verb = POST, path = ''/webhook'', body = Some (Parsed (JObj [])), writable = True\<rparr>"
        "\<lparr>received_count = 3, saved = []\<rparr>"
        "\<lparr>verb = POST, path = ''/other'', body = Some (Parsed (JObj [])), writable = True\<rparr>"
        "\<lparr>verb = POST, path = ''/webhook'', body = Some Malformed, writable = True\<rparr>"
        "[\<lparr>verb = POST, path = ''/other'', body = Some (Parsed (JObj [])), writable = True\<rparr>,
          \<lparr>verb = POST, path = ''/webhook'', body = Some Malformed, writable = True\<rparr>,
          \<lparr>verb = POST, path = ''/webhook'', body = Some (Parsed (JObj [])), writable = True\<rparr>,
          \<lparr>verb = GET, path = ''/health'', body = Some (Parsed (JObj [])), writable = True\<rparr>]"]
  by (simp add: handle_request_def do_POST_def is_delivery_def except_status_def)

text \<open>
  The counter is not the number of webhooks answered with 200: a POST to
  \<open>/webhook\<close> whose body is the JSON list \<open>[]\<close> is counted, then
  \<open>format_cve_alert\<close> raises on \<open>payload.get\<close> and the answer is 500.
\<close>

theorem received_count_not_processed_count:
  "serve [\<lparr>verb = POST, path = ''/webhook'', body = Some (Parsed (JArr [])), writable = True\<rparr>]
         \<lparr>received_count = 0, saved = []\<rparr>
     = ([Inr (Status 500)], \<lparr>received_count = 1, saved = []\<rparr>)"
  by (simp add: handle_request_def do_POST_def format_cve_alert_def bind_def except_status_def)

section \<open>The wait loop of the command\<close>

lemma fetch_json_RequestException: "fetch_json reply = Inl e \<Longrightarrow> is_RequestException e"
  by (auto simp: fetch_json_def bind_def send_def raise_for_status_def response_json_def
      split: http_reply.splits sum.splits if_splits option.splits)

lemma fetch_json_http_error:
  "400 \<le> status_code r \<Longrightarrow> status_code r < 600 \<Longrightarrow> fetch_json (Answered r) = Inl (HTTPError r)"
  by (simp add: fetch_json_def bind_def send_def raise_for_status_def)

lemma fetch_json_body:
  "\<not> (400 \<le> status_code r \<and> status_code r < 600) \<Longrightarrow>
     fetch_json (Answered r) = (case json_body r of None \<Rightarrow> Inl RequestsJSONDecodeError | Some v \<Rightarrow> Inr v)"
  by (auto simp: fetch_json_def bind_def send_def raise_for_status_def response_json_def)

lemma fetch_json_ok:
  "status_code r < 400 \<Longrightarrow> json_body r = Some v \<Longrightarrow> fetch_json (Answered r) = Inr v"
  by (simp add: fetch_json_body)

lemma get_dag_run_state_eq:
  "get_dag_run_state env cfg rid w =
     (case read_state (snd (on_get env (served w))) of
        Inr s \<Rightarrow> (Inr s, after_query env cfg rid w)
      | Inl e \<Rightarrow> if is_RequestException e
                 then (Inr JNull, error (FailedToGetStateExn e) (after_query env cfg rid w))
                 else (Inl e, after_query env cfg rid w))"
  by (simp add: get_dag_run_state_def read_state_def after_query_def Let_def split: sum.splits)

lemma read_state_fetch_fail: "fetch_json reply = Inl e \<Longrightarrow> read_state reply = Inl e"
  by (simp add: read_state_def bind_def)

lemma wait_loop_query_fails:
  assumes "int (clock w) - int start_time < deadline * 1000"
      and "fetch_json (snd (on_get env (served w))) = Inl e"
  shows "wait_loop env cfg rid deadline start_time w =
           (Inr False, error FailedToGetState (error (FailedToGetStateExn e) (after_query env cfg rid w)))"
  using assms fetch_json_RequestException [OF assms(2)]
  by (subst wait_loop.simps) (simp add: get_dag_run_state_eq read_state_fetch_fail)

lemma wait_loop_state:
  assumes "int (clock w) - int start_time < deadline * 1000"
      and "read_state (snd (on_get env (served w))) = Inr s"
  shows "wait_loop env cfg rid deadline start_time w =
     (let w1 = after_query env cfg rid w in
      if s = JNull then (Inr False, error FailedToGetState w1)
      else if s = JStr ''success'' then (Inr True, info (Completed (clock w1 - start_time)) w1)
      else if s = JStr ''failed'' then (Inr False, error (RunFailed (clock w1 - start_time)) w1)
      else wait_loop env cfg rid deadline start_time
             (sleep 2 (info (StateElapsed s (clock w1 - start_time)) w1)))"
  using assms
  by (subst wait_loop.simps) (simp add: get_dag_run_state_eq Let_def)

lemma wait_loop_timeout:
  assumes "\<not> int (clock w) - int start_time < deadline * 1000"
  shows "wait_loop env cfg rid deadline start_time w = (Inr False, error (TimeoutReached deadline) w)"
  using assms by (subst wait_loop.simps) simp

lemma wait_loop_sent:
  "\<exists>qs. sent (snd (wait_loop env cfg rid T st w)) = sent w @ qs
      \<and> (\<forall>x\<in>set qs. snd x = RunState (url cfg) ''opencve'' rid (username cfg, password cfg) 10
                     \<and> int (fst x) - int st < T * 1000)
      \<and> served (snd (wait_loop env cfg rid T st w)) = served w + length qs"
proof (induction env cfg rid T st w rule: wait_loop.induct)
  case (1 env cfg rid T st w)
  let ?q = "(clock w, RunState (url cfg) ''opencve'' rid (username cfg, password cfg) 10)"
  show ?case
  proof (cases "int (clock w) - int st < T * 1000")
    case False
    then show ?thesis by (simp add: wait_loop_timeout error_def)
  next
    case True
    show ?thesis
    proof (cases "read_state (snd (on_get env (served w)))")
      case (Inl e)
      then have "sent (snd (wait_loop env cfg rid T st w)) = sent w @ [?q]
          \<and> served (snd (wait_loop env cfg rid T st w)) = served w + length [?q]"
        using True
        by (subst (1 2) wait_loop.simps)
           (simp add: get_dag_run_state_eq error_def after_query_def)
      with True show ?thesis by (intro exI [of _ "[?q]"]) simp
    next
      case (Inr s)
      note loop = wait_loop_state [OF True Inr, of cfg rid]
      show ?thesis
      proof (cases "s = JNull \<or> s = JStr ''success'' \<or> s = JStr ''failed''")
        case True
        then have "sent (snd (wait_loop env cfg rid T st w)) = sent w @ [?q]
          \<and> served (snd (wait_loop env cfg rid T st w)) = served w + length [?q]"
          by (auto simp: loop Let_def error_def info_def after_query_def)
        with \<open>int (clock w) - int st < T * 1000\<close> show ?thesis
          by (intro exI [of _ "[?q]"]) simp
      next
        case False
        let ?w2 = "sleep 2 (info (StateElapsed s (clock (after_query env cfg rid w) - st))
                     (after_query env cfg rid w))"
        have g: "get_dag_run_state env cfg rid w = (Inr s, after_query env cfg rid w)"
          by (simp add: get_dag_run_state_eq Inr)
        from False have eq: "wait_loop env cfg rid T st w = wait_loop env cfg rid T st ?w2"
          by (simp add: loop Let_def)
        from "1.IH" [OF True g [symmetric] refl] False
        obtain qs where qs: "sent (snd (wait_loop env cfg rid T st ?w2)) = sent ?w2 @ qs"
          "\<forall>x\<in>set qs. snd x = RunState (url cfg) ''opencve'' rid (username cfg, password cfg) 10
                     \<and> int (fst x) - int st < T * 1000"
          "served (snd (wait_loop env cfg rid T st ?w2)) = served ?w2 + length qs"
          by auto
        have s2: "sent ?w2 = sent w @ [?q]" "served ?w2 = Suc (served w)"
          by (simp_all add: sleep_def info_def after_query_def)
        show ?thesis
          using qs s2 \<open>int (clock w) - int st < T * 1000\<close>
          by (intro exI [of _ "?q # qs"]) (simp add: eq)
      qed
    qed
  qed
qed

lemma trigger_dag_eq:
  "trigger_dag env cfg w =
     (case fetch_json (snd (on_post env)) of
        Inr v \<Rightarrow> (Inr v, after_post env cfg ''Manual trigger via Django management command'' w)
      | Inl e \<Rightarrow>
          (Inr JNull,
           (case e of HTTPError r \<Rightarrow> error (ResponseText (body_text r)) | _ \<Rightarrow> (\<lambda>w. w))
             (error (FailedToTriggerDag e)
                (after_post env cfg ''Manual trigger via Django management command'' w))))"
  by (auto simp: trigger_dag_def after_post_def Let_def split: sum.splits exn.splits
      dest: fetch_json_RequestException)

text \<open>
  C1 (as amended). While the loop is in progress, a state query that fails with
  an exception of requests (no connection, a read timeout, a response with a
  status from 400 to 599, a body that is not JSON) ends the wait at once: the
  result is \<open>False\<close>, exactly one query was issued and none follows, and the two
  error lines are written. The first line carries the exception; for a status
  from 400 to 599 that is the HTTP error with the response and its status code.
\<close>

theorem failed_state_query_ends_wait:
  assumes "int (clock w) - int start_time < deadline * 1000"
      and "fetch_json (snd (on_get env (served w))) = Inl e"
  shows "wait_loop env cfg rid deadline start_time w =
           (Inr False,
            error FailedToGetState (error (FailedToGetStateExn e) (after_query env cfg rid w)))
       \<and> served (snd (wait_loop env cfg rid deadline start_time w)) = Suc (served w)
       \<and> (\<forall>r. snd (on_get env (served w)) = Answered r \<and> 400 \<le> status_code r
                \<and> status_code r < 600 \<longrightarrow> e = HTTPError r)"
proof -
  have loop: "wait_loop env cfg rid deadline start_time w =
           (Inr False,
            error FailedToGetState (error (FailedToGetStateExn e) (after_query env cfg rid w)))"
    using assms by (rule wait_loop_query_fails)
  have "served (snd (wait_loop env cfg rid deadline start_time w)) = Suc (served w)"
    by (simp add: loop error_def after_query_def)
  moreover have "e = HTTPError r"
    if "snd (on_get env (served w)) = Answered r" "400 \<le> status_code r" "status_code r < 600" for r
    using that assms(2) by (simp add: fetch_json_http_error)
  ultimately show ?thesis using loop by blast
qed

theorem failed_state_query_ends_wait_witness:
  "int (clock \<lparr>clock = 0, out = [], sent = [], served = 0\<rparr>) - int 0 < 10 * 1000
   \<and> fetch_json (snd (on_get \<lparr>on_post = (0, Refused),
          on_get = (\<lambda>k. (30, Answered (Response 500 ''Internal Server Error'' None)))\<rparr>
        (served \<lparr>clock = 0, out = [], sent = [], served = 0\<rparr>)))
       = Inl (HTTPError (Response 500 ''Internal Server Error'' None))
   \<and> wait_loop \<lparr>on_post = (0, Refused),
          on_get = (\<lambda>k. (30, Answered (Response 500 ''Internal Server Error'' None)))\<rparr>
        \<lparr>url = ''http://localhost:8080'', username = ''airflow'', password = ''airflow''\<rparr>
        (JStr ''r1'') 10 0 \<lparr>clock = 0, out = [], sent = [], served = 0\<rparr>
     = (Inr False,
        \<lparr>clock = 30,
         out = [(ERROR, FailedToGetStateExn (HTTPError (Response 500 ''Internal Server Error'' None))),
                (ERROR, FailedToGetState)],
         sent = [(0, RunState ''http://localhost:8080'' ''opencve'' (JStr ''r1'')
                       (''airflow'', ''airflow'') 10)],
         served = 1\<rparr>)"
proof -
  have a: "int (clock \<lparr>clock = 0, out = [], sent = [], served = 0\<rparr>) - int 0 < 10 * 1000"
    by simp
  have b: "fetch_json (snd (on_get \<lparr>on_post = (0, Refused),
          on_get = (\<lambda>k. (30, Answered (Response 500 ''Internal Server Error'' None)))\<rparr>
        (served \<lparr>clock = 0, out = [], sent = [], served = 0\<rparr>)))
       = Inl (HTTPError (Response 500 ''Internal Server Error'' None))"
    by (simp add: fetch_json_http_error)
  show ?thesis
    using a b failed_state_query_ends_wait [OF a b,
        of "\<lparr>url = ''http://localhost:8080'', username = ''airflow'', password = ''airflow''\<rparr>"
           "JStr ''r1''"]
    by (simp add: error_def after_query_def)
qed

text \<open>
  A response with a status below 400 is not a failed query, whatever the status:
  a 300 answer whose body gives the state \<open>running\<close> makes the loop sleep and
  poll again, and the wait ends with the success the second query reports.
\<close>

theorem redirect_reply_is_not_a_failure:
  "wait_for_completion
     \<lparr>on_post = (0, Refused),
      on_get = (\<lambda>k. if k = 0
                 then (0, Answered (Response 300 [] (Some (JObj [(''state'', JStr ''running'')]))))
                 else (0, Answered (Response 200 [] (Some (JObj [(''state'', JStr ''success'')])))))\<rparr>
     \<lparr>url = ''http://localhost:8080'', username = ''airflow'', password = ''airflow''\<rparr>
     (JStr ''r1'') 10 \<lparr>clock = 0, out = [], sent = [], served = 0\<rparr>
   = (Inr True,
      \<lparr>clock = 2000,
       out = [(INFO, Waiting 10), (INFO, StateElapsed (JStr ''running'') 0), (INFO, Completed 2000)],
       sent = [(0, RunState ''http://localhost:8080'' ''opencve'' (JStr ''r1'')
                      (''airflow'', ''airflow'') 10),
               (2000, RunState ''http://localhost:8080'' ''opencve'' (JStr ''r1'')
                      (''airflow'', ''airflow'') 10)],
       served = 2\<rparr>)"
  by code_simp

text \<open>
  C3 (as amended). While the loop is in progress, a state query that reports
  \<open>failed\<close> ends the wait at once: the result is \<open>False\<close>, the error line says
  that the run failed and after how long, exactly one query was issued and none
  follows. The result is the same value as when the query itself fails; the two
  cases differ in the last line written only.
\<close>

theorem failed_run_ends_wait:
  assumes "int (clock w) - int start_time < deadline * 1000"
      and "read_state (snd (on_get env (served w))) = Inr (JStr ''failed'')"
  shows "wait_loop env cfg rid deadline start_time w =
           (Inr False,
            error (RunFailed (clock w + fst (on_get env (served w)) - start_time))
              (after_query env cfg rid w))
       \<and> served (snd (wait_loop env cfg rid deadline start_time w)) = Suc (served w)
       \<and> sent (snd (wait_loop env cfg rid deadline start_time w)) =
            sent w @ [(clock w, RunState (url cfg) ''opencve'' rid (username cfg, password cfg) 10)]
       \<and> (fetch_json (snd (on_get env' (served w))) = Inl e \<longrightarrow>
             fst (wait_loop env' cfg rid deadline start_time w)
               = fst (wait_loop env cfg rid deadline start_time w)
           \<and> last (out (snd (wait_loop env' cfg rid deadline start_time w)))
               \<noteq> last (out (snd (wait_loop env cfg rid deadline start_time w))))"
proof -
  have loop: "wait_loop env cfg rid deadline start_time w =
           (Inr False,
            error (RunFailed (clock w + fst (on_get env (served w)) - start_time))
              (after_query env cfg rid w))"
    using wait_loop_state [OF assms, of cfg rid] by (simp add: Let_def after_query_def)
  have "fst (wait_loop env' cfg rid deadline start_time w)
               = fst (wait_loop env cfg rid deadline start_time w)
           \<and> last (out (snd (wait_loop env' cfg rid deadline start_time w)))
               \<noteq> last (out (snd (wait_loop env cfg rid deadline start_time w)))"
    if "fetch_json (snd (on_get env' (served w))) = Inl e"
    using wait_loop_query_fails [OF assms(1) that, of cfg rid] loop by (simp add: error_def)
  then show ?thesis using loop by (simp add: error_def after_query_def)
qed

theorem failed_run_ends_wait_witness:
  "int (clock \<lparr>clock = 4000, out = [], sent = [], served = 2\<rparr>) - int 0 < 10 * 1000
   \<and> read_state (snd (on_get \<lparr>on_post = (0, Refused),
          on_get = (\<lambda>k. (30, Answered (Response 200 [] (Some (JObj [(''state'', JStr ''failed'')])))))\<rparr>
        (served \<lparr>clock = 4000, out = [], sent = [], served = 2\<rparr>))) = Inr (JStr ''failed'')
   \<and> fetch_json (snd (on_get \<lparr>on_post = (0, Refused), on_get = (\<lambda>k. (0, Refused))\<rparr>
        (served \<lparr>clock = 4000, out = [], sent = [], served = 2\<rparr>))) = Inl ConnectionError
   \<and> wait_loop \<lparr>on_post = (0, Refused),
          on_get = (\<lambda>k. (30, Answered (Response 200 [] (Some (JObj [(''state'', JStr ''failed'')])))))\<rparr>
        \<lparr>url = ''http://localhost:8080'', username = ''airflow'', password = ''airflow''\<rparr>
        (JStr ''r1'') 10 0 \<lparr>clock = 4000, out = [], sent = [], served = 2\<rparr>
     = (Inr False,
        \<lparr>clock = 4030, out = [(ERROR, RunFailed 4030)],
         sent = [(4000, RunState ''http://localhost:8080'' ''opencve'' (JStr ''r1'')
                       (''airflow'', ''airflow'') 10)],
         served = 3\<rparr>)
   \<and> fst (wait_loop \<lparr>on_post = (0, Refused), on_get = (\<lambda>k. (0, Refused))\<rparr>
        \<lparr>url = ''http://localhost:8080'', username = ''airflow'', password = ''airflow''\<rparr>
        (JStr ''r1'') 10 0 \<lparr>clock = 4000, out = [], sent = [], served = 2\<rparr>) = Inr False
   \<and> last (out (snd (wait_loop \<lparr>on_post = (0, Refused), on_get = (\<lambda>k. (0, Refused))\<rparr>
        \<lparr>url = ''http://localhost:8080'', username = ''airflow'', password = ''airflow''\<rparr>
        (JStr ''r1'') 10 0 \<lparr>clock = 4000, out = [], sent = [], served = 2\<rparr>)))
      \<noteq> (ERROR, RunFailed 4030)"
proof -
  have a: "int (clock \<lparr>clock = 4000, out = [], sent = [], served = 2\<rparr>) - int 0 < 10 * 1000"
    by simp
  have b: "read_state (snd (on_get \<lparr>on_post = (0, Refused),
          on_get = (\<lambda>k. (30, Answered (Response 200 [] (Some (JObj [(''state'', JStr ''failed'')])))))\<rparr>
        (served \<lparr>clock = 4000, out = [], sent = [], served = 2\<rparr>))) = Inr (JStr ''failed'')"
    by (simp add: read_state_def fetch_json_body bind_def dict_get_def dict_lookup_def)
  have c: "fetch_json (snd (on_get \<lparr>on_post = (0, Refused), on_get = (\<lambda>k. (0, Refused))\<rparr>
        (served \<lparr>clock = 4000, out = [], sent = [], served = 2\<rparr>))) = Inl ConnectionError"
    by (simp add: fetch_json_def send_def bind_def)
  note t = failed_run_ends_wait [OF a b,
        where cfg = "\<lparr>url = ''http://localhost:8080'', username = ''airflow'', password = ''airflow''\<rparr>"
          and rid = "JStr ''r1''"
          and env' = "\<lparr>on_post = (0, Refused), on_get = (\<lambda>k. (0, Refused))\<rparr>"
          and e = ConnectionError]
  have loop: "wait_loop \<lparr>on_post = (0, Refused),
          on_get = (\<lambda>k. (30, Answered (Response 200 [] (Some (JObj [(''state'', JStr ''failed'')])))))\<rparr>
        \<lparr>url = ''http://localhost:8080'', username = ''airflow'', password = ''airflow''\<rparr>
        (JStr ''r1'') 10 0 \<lparr>clock = 4000, out = [], sent = [], served = 2\<rparr>
     = (Inr False,
        \<lparr>clock = 4030, out = [(ERROR, RunFailed 4030)],
         sent = [(4000, RunState ''http://localhost:8080'' ''opencve'' (JStr ''r1'')
                       (''airflow'', ''airflow'') 10)],
         served = 3\<rparr>)"
    using t by (simp add: error_def after_query_def)
  from t c have "last (out (snd (wait_loop \<lparr>on_post = (0, Refused), on_get = (\<lambda>k. (0, Refused))\<rparr>
        \<lparr>url = ''http://localhost:8080'', username = ''airflow'', password = ''airflow''\<rparr>
        (JStr ''r1'') 10 0 \<lparr>clock = 4000, out = [], sent = [], served = 2\<rparr>)))
      \<noteq> last (out (snd (wait_loop \<lparr>on_post = (0, Refused),
          on_get = (\<lambda>k. (30, Answered (Response 200 [] (Some (JObj [(''state'', JStr ''failed'')])))))\<rparr>
        \<lparr>url = ''http://localhost:8080'', username = ''airflow'', password = ''airflow''\<rparr>
        (JStr ''r1'') 10 0 \<lparr>clock = 4000, out = [], sent = [], served = 2\<rparr>)))"
    by blast
  from t c have "fst (wait_loop \<lparr>on_post = (0, Refused), on_get = (\<lambda>k. (0, Refused))\<rparr>
        \<lparr>url = ''http://localhost:8080'', username = ''airflow'', password = ''airflow''\<rparr>
        (JStr ''r1'') 10 0 \<lparr>clock = 4000, out = [], sent = [], served = 2\<rparr>)
      = fst (wait_loop \<lparr>on_post = (0, Refused),
          on_get = (\<lambda>k. (30, Answered (Response 200 [] (Some (JObj [(''state'', JStr ''failed'')])))))\<rparr>
        \<lparr>url = ''http://localhost:8080'', username = ''airflow'', password = ''airflow''\<rparr>
        (JStr ''r1'') 10 0 \<lparr>clock = 4000, out = [], sent = [], served = 2\<rparr>)"
    by blast
  then have same: "fst (wait_loop \<lparr>on_post = (0, Refused), on_get = (\<lambda>k. (0, Refused))\<rparr>
        \<lparr>url = ''http://localhost:8080'', username = ''airflow'', password = ''airflow''\<rparr>
        (JStr ''r1'') 10 0 \<lparr>clock = 4000, out = [], sent = [], served = 2\<rparr>) = Inr False"
    by (simp add: loop)
  from \<open>last (out (snd (wait_loop \<lparr>on_post = (0, Refused), on_get = (\<lambda>k. (0, Refused))\<rparr>
        \<lparr>url = ''http://localhost:8080'', username = ''airflow'', password = ''airflow''\<rparr>
        (JStr ''r1'') 10 0 \<lparr>clock = 4000, out = [], sent = [], served = 2\<rparr>)))
      \<noteq> last (out (snd (wait_loop \<lparr>on_post = (0, Refused),
          on_get = (\<lambda>k. (30, Answered (Response 200 [] (Some (JObj [(''state'', JStr ''failed'')])))))\<rparr>
        \<lparr>url = ''http://localhost:8080'', username = ''airflow'', password = ''airflow''\<rparr>
        (JStr ''r1'') 10 0 \<lparr>clock = 4000, out = [], sent = [], served = 2\<rparr>)))\<close>
  have ne: "last (out (snd (wait_loop \<lparr>on_post = (0, Refused), on_get = (\<lambda>k. (0, Refused))\<rparr>
        \<lparr>url = ''http://localhost:8080'', username = ''airflow'', password = ''airflow''\<rparr>
        (JStr ''r1'') 10 0 \<lparr>clock = 4000, out = [], sent = [], served = 2\<rparr>)))
      \<noteq> (ERROR, RunFailed 4030)"
    by (simp add: loop)
  from a b c loop same ne show ?thesis by blast
qed

text \<open>
  A run that the service reports as failed and a state query answered with status
  500 give the caller the same result: \<open>wait_for_completion\<close> returns \<open>False\<close> in
  both cases, and \<open>handle\<close> ends both with the same last line and the same exit
  status.
\<close>

theorem failed_run_and_failed_query_return_the_same:
  "fst (wait_for_completion
          \<lparr>on_post = (0, Refused),
           on_get = (\<lambda>k. (0, Answered (Response 200 [] (Some (JObj [(''state'', JStr ''failed'')])))))\<rparr>
          \<lparr>url = ''http://localhost:8080'', username = ''airflow'', password = ''airflow''\<rparr>
          (JStr ''r1'') 10 \<lparr>clock = 0, out = [], sent = [], served = 0\<rparr>) = Inr False
   \<and> fst (wait_for_completion
          \<lparr>on_post = (0, Refused),
           on_get = (\<lambda>k. (0, Answered (Response 500 ''Internal Server Error'' None)))\<rparr>
          \<lparr>url = ''http://localhost:8080'', username = ''airflow'', password = ''airflow''\<rparr>
          (JStr ''r1'') 10 \<lparr>clock = 0, out = [], sent = [], served = 0\<rparr>) = Inr False
   \<and> fst (handle
          \<lparr>on_post = (0, Answered (Response 201 []
             (Some (JObj [(''dag_run_id'', JStr ''r1''), (''state'', JStr ''queued'')])))),
           on_get = (\<lambda>k. (0, Answered (Response 200 [] (Some (JObj [(''state'', JStr ''failed'')])))))\<rparr>
          Map.empty \<lparr>wait = True, timeout = 10\<rparr>
          \<lparr>clock = 0, out = [], sent = [], served = 0\<rparr>) = Inr ()
   \<and> last (out (snd (handle
          \<lparr>on_post = (0, Answered (Response 201 []
             (Some (JObj [(''dag_run_id'', JStr ''r1''), (''state'', JStr ''queued'')])))),
           on_get = (\<lambda>k. (0, Answered (Response 200 [] (Some (JObj [(''state'', JStr ''failed'')])))))\<rparr>
          Map.empty \<lparr>wait = True, timeout = 10\<rparr>
          \<lparr>clock = 0, out = [], sent = [], served = 0\<rparr>))) = (ERROR, DidNotComplete)
   \<and> fst (handle
          \<lparr>on_post = (0, Answered (Response 201 []
             (Some (JObj [(''dag_run_id'', JStr ''r1''), (''state'', JStr ''queued'')])))),
           on_get = (\<lambda>k. (0, Answered (Response 500 ''Internal Server Error'' None)))\<rparr>
          Map.empty \<lparr>wait = True, timeout = 10\<rparr>
          \<lparr>clock = 0, out = [], sent = [], served = 0\<rparr>) = Inr ()
   \<and> last (out (snd (handle
          \<lparr>on_post = (0, Answered (Response 201 []
             (Some (JObj [(''dag_run_id'', JStr ''r1''), (''state'', JStr ''queued'')])))),
           on_get = (\<lambda>k. (0, Answered (Response 500 ''Internal Server Error'' None)))\<rparr>
          Map.empty \<lparr>wait = True, timeout = 10\<rparr>
          \<lparr>clock = 0, out = [], sent = [], served = 0\<rparr>))) = (ERROR, DidNotComplete)"
  by code_simp

text \<open>
  C7 (as amended). While the loop is in progress, a state query whose answer is
  not JSON ends the wait at once with \<open>False\<close>, like every failed query; there is
  no state \<open>unknown\<close> made up for it and no count of occurrences. A state string
  other than \<open>success\<close> and \<open>failed\<close>, such as \<open>unknown\<close> sent by the service
  itself, makes the loop write a progress line, sleep two seconds and poll again.
\<close>

theorem undecodable_state_ends_wait:
  assumes "int (clock w) - int start_time < deadline * 1000"
  shows "(snd (on_get env (served w)) = Answered r \<and> status_code r < 400 \<and> json_body r = None \<longrightarrow>
            wait_loop env cfg rid deadline start_time w =
              (Inr False,
               error FailedToGetState
                 (error (FailedToGetStateExn RequestsJSONDecodeError) (after_query env cfg rid w))))
       \<and> (read_state (snd (on_get env' (served w))) = Inr (JStr s) \<and> s \<noteq> ''success''
            \<and> s \<noteq> ''failed'' \<longrightarrow>
            wait_loop env' cfg rid deadline start_time w =
              wait_loop env' cfg rid deadline start_time
                (sleep 2 (info (StateElapsed (JStr s)
                                  (clock w + fst (on_get env' (served w)) - start_time))
                            (after_query env' cfg rid w))))"
proof -
  have "wait_loop env cfg rid deadline start_time w =
              (Inr False,
               error FailedToGetState
                 (error (FailedToGetStateExn RequestsJSONDecodeError) (after_query env cfg rid w)))"
    if "snd (on_get env (served w)) = Answered r" "status_code r < 400" "json_body r = None"
  proof -
    from that have "fetch_json (snd (on_get env (served w))) = Inl RequestsJSONDecodeError"
      by (simp add: fetch_json_body)
    with assms show ?thesis by (rule wait_loop_query_fails)
  qed
  moreover have "wait_loop env' cfg rid deadline start_time w =
              wait_loop env' cfg rid deadline start_time
                (sleep 2 (info (StateElapsed (JStr s)
                                  (clock w + fst (on_get env' (served w)) - start_time))
                            (after_query env' cfg rid w)))"
    if "read_state (snd (on_get env' (served w))) = Inr (JStr s)" "s \<noteq> ''success''" "s \<noteq> ''failed''"
    using wait_loop_state [OF assms that(1), of cfg rid] that(2,3)
    by (simp add: Let_def after_query_def)
  ultimately show ?thesis by blast
qed

theorem undecodable_state_ends_wait_witness:
  "int (clock \<lparr>clock = 0, out = [], sent = [], served = 0\<rparr>) - int 0 < 10 * 1000
   \<and> snd (on_get \<lparr>on_post = (0, Refused),
                  on_get = (\<lambda>k. (5, Answered (Response 200 ''<html>'' None)))\<rparr>
             (served \<lparr>clock = 0, out = [], sent = [], served = 0\<rparr>))
        = Answered (Response 200 ''<html>'' None)
   \<and> status_code (Response 200 ''<html>'' None) < 400
   \<and> json_body (Response 200 ''<html>'' None) = None
   \<and> read_state (snd (on_get \<lparr>on_post = (0, Refused),
          on_get = (\<lambda>k. (5, Answered (Response 200 [] (Some (JObj [(''state'', JStr ''unknown'')])))))\<rparr>
        (served \<lparr>clock = 0, out = [], sent = [], served = 0\<rparr>))) = Inr (JStr ''unknown'')
   \<and> ''unknown'' \<noteq> ''success'' \<and> ''unknown'' \<noteq> ''failed''
   \<and> wait_loop \<lparr>on_post = (0, Refused),
                  on_get = (\<lambda>k. (5, Answered (Response 200 ''<html>'' None)))\<rparr>
        \<lparr>url = ''http://localhost:8080'', username = ''airflow'', password = ''airflow''\<rparr>
        (JStr ''r1'') 10 0 \<lparr>clock = 0, out = [], sent = [], served = 0\<rparr>
      = (Inr False,
         \<lparr>clock = 5,
          out = [(ERROR, FailedToGetStateExn RequestsJSONDecodeError), (ERROR, FailedToGetState)],
          sent = [(0, RunState ''http://localhost:8080'' ''opencve'' (JStr ''r1'')
                        (''airflow'', ''airflow'') 10)],
          served = 1\<rparr>)
   \<and> wait_loop \<lparr>on_post = (0, Refused),
          on_get = (\<lambda>k. (5, Answered (Response 200 [] (Some (JObj [(''state'', JStr ''unknown'')])))))\<rparr>
        \<lparr>url = ''http://localhost:8080'', username = ''airflow'', password = ''airflow''\<rparr>
        (JStr ''r1'') 10 0 \<lparr>clock = 0, out = [], sent = [], served = 0\<rparr>
      = wait_loop \<lparr>on_post = (0, Refused),
          on_get = (\<lambda>k. (5, Answered (Response 200 [] (Some (JObj [(''state'', JStr ''unknown'')])))))\<rparr>
        \<lparr>url = ''http://localhost:8080'', username = ''airflow'', password = ''airflow''\<rparr>
        (JStr ''r1'') 10 0
        \<lparr>clock = 2005, out = [(INFO, StateElapsed (JStr ''unknown'') 5)],
         sent = [(0, RunState ''http://localhost:8080'' ''opencve'' (JStr ''r1'')
                        (''airflow'', ''airflow'') 10)],
         served = 1\<rparr>"
proof -
  have a: "int (clock \<lparr>clock = 0, out = [], sent = [], served = 0\<rparr>) - int 0 < 10 * 1000"
    by simp
  have b: "snd (on_get \<lparr>on_post = (0, Refused),
                  on_get = (\<lambda>k. (5, Answered (Response 200 ''<html>'' None)))\<rparr>
             (served \<lparr>clock = 0, out = [], sent = [], served = 0\<rparr>))
        = Answered (Response 200 ''<html>'' None)
     \<and> status_code (Response 200 ''<html>'' None) < 400
     \<and> json_body (Response 200 ''<html>'' None) = None"
    by simp
  have c: "read_state (snd (on_get \<lparr>on_post = (0, Refused),
          on_get = (\<lambda>k. (5, Answered (Response 200 [] (Some (JObj [(''state'', JStr ''unknown'')])))))\<rparr>
        (served \<lparr>clock = 0, out = [], sent = [], served = 0\<rparr>))) = Inr (JStr ''unknown'')
     \<and> ''unknown'' \<noteq> ''success'' \<and> ''unknown'' \<noteq> ''failed''"
    by (simp add: read_state_def fetch_json_ok bind_def dict_get_def dict_lookup_def)
  note t = undecodable_state_ends_wait [OF a,
      where env = "\<lparr>on_post = (0, Refused),
                  on_get = (\<lambda>k. (5, Answered (Response 200 ''<html>'' None)))\<rparr>"
        and r = "Response 200 ''<html>'' None"
        and env' = "\<lparr>on_post = (0, Refused),
          on_get = (\<lambda>k. (5, Answered (Response 200 [] (Some (JObj [(''state'', JStr ''unknown'')])))))\<rparr>"
        and s = "''unknown''"
        and cfg = "\<lparr>url = ''http://localhost:8080'', username = ''airflow'', password = ''airflow''\<rparr>"
        and rid = "JStr ''r1''"]
  from t b have d: "wait_loop \<lparr>on_post = (0, Refused),
                  on_get = (\<lambda>k. (5, Answered (Response 200 ''<html>'' None)))\<rparr>
        \<lparr>url = ''http://localhost:8080'', username = ''airflow'', password = ''airflow''\<rparr>
        (JStr ''r1'') 10 0 \<lparr>clock = 0, out = [], sent = [], served = 0\<rparr>
      = (Inr False,
         \<lparr>clock = 5,
          out = [(ERROR, FailedToGetStateExn RequestsJSONDecodeError), (ERROR, FailedToGetState)],
          sent = [(0, RunState ''http://localhost:8080'' ''opencve'' (JStr ''r1'')
                        (''airflow'', ''airflow'') 10)],
          served = 1\<rparr>)"
    by (simp add: error_def after_query_def)
  from t c have e: "wait_loop \<lparr>on_post = (0, Refused),
          on_get = (\<lambda>k. (5, Answered (Response 200 [] (Some (JObj [(''state'', JStr ''unknown'')])))))\<rparr>
        \<lparr>url = ''http://localhost:8080'', username = ''airflow'', password = ''airflow''\<rparr>
        (JStr ''r1'') 10 0 \<lparr>clock = 0, out = [], sent = [], served = 0\<rparr>
      = wait_loop \<lparr>on_post = (0, Refused),
          on_get = (\<lambda>k. (5, Answered (Response 200 [] (Some (JObj [(''state'', JStr ''unknown'')])))))\<rparr>
        \<lparr>url = ''http://localhost:8080'', username = ''airflow'', password = ''airflow''\<rparr>
        (JStr ''r1'') 10 0
        \<lparr>clock = 2005, out = [(INFO, StateElapsed (JStr ''unknown'') 5)],
         sent = [(0, RunState ''http://localhost:8080'' ''opencve'' (JStr ''r1'')
                        (''airflow'', ''airflow'') 10)],
         served = 1\<rparr>"
    by (simp add: sleep_def info_def after_query_def)
  from a b c d e show ?thesis by blast
qed

text \<open>
  A first answer that is not JSON ends the wait with \<open>False\<close> after one query,
  although the second query would have reported \<open>success\<close>.
\<close>

theorem undecodable_state_is_fatal:
  "wait_for_completion
     \<lparr>on_post = (0, Refused),
      on_get = (\<lambda>k. if k = 0
                 then (0, Answered (Response 200 ''<html>'' None))
                 else (0, Answered (Response 200 [] (Some (JObj [(''state'', JStr ''success'')])))))\<rparr>
     \<lparr>url = ''http://localhost:8080'', username = ''airflow'', password = ''airflow''\<rparr>
     (JStr ''r1'') 10 \<lparr>clock = 0, out = [], sent = [], served = 0\<rparr>
   = (Inr False,
      \<lparr>clock = 0,
       out = [(INFO, Waiting 10), (ERROR, FailedToGetStateExn RequestsJSONDecodeError),
              (ERROR, FailedToGetState)],
       sent = [(0, RunState ''http://localhost:8080'' ''opencve'' (JStr ''r1'')
                      (''airflow'', ''airflow'') 10)],
       served = 1\<rparr>)"
  by code_simp

section \<open>The command as a whole\<close>

lemma handle_eq:
  assumes "fetch_json (snd (on_post env)) = Inr v"
  shows "handle env environ opts w =
     (let cfg = get_airflow_config environ;
          w2 = after_post env cfg ''Manual trigger via Django management command''
                 (info (Triggering (url cfg)) w)
      in if \<not> truthy v then (Inr (), error FailedToTriggerRun w2)
         else case v of
             JObj kvs \<Rightarrow>
               if wait opts then
                 (case wait_for_completion env cfg (dict_get kvs ''dag_run_id'') (timeout opts)
                         (triggered env environ kvs w) of
                    (Inl e, w6) \<Rightarrow> (Inl e, w6)
                  | (Inr fine, w6) \<Rightarrow>
                      if \<not> fine then (Inr (), error DidNotComplete w6) else (Inr (), w6))
               else (Inr (), triggered env environ kvs w)
           | _ \<Rightarrow> (Inl AttributeError, w2))"
  using assms
  by (cases v) (simp_all add: handle_def Let_def trigger_dag_eq triggered_def bind_def)

lemma handle_failed_trigger:
  assumes "fetch_json (snd (on_post env)) = Inl e"
  shows "handle env environ opts w =
     (Inr (),
      error FailedToTriggerRun
        ((case e of HTTPError r \<Rightarrow> error (ResponseText (body_text r)) | _ \<Rightarrow> (\<lambda>w. w))
           (error (FailedToTriggerDag e)
              (after_post env (get_airflow_config environ)
                 ''Manual trigger via Django management command''
                 (info (Triggering (url (get_airflow_config environ))) w)))))"
  using assms by (simp add: handle_def Let_def trigger_dag_eq)



text \<open>
  C5 (as amended). A trigger request answered with a 2xx response whose JSON body
  is an object without \<open>dag_run_id\<close> is not an error: the view answers 200 with
  its success payload and the run identifier \<open>None\<close>; the command, unless the
  object is empty, writes that the run was triggered with identifier \<open>None\<close> and
  goes on with that identifier (an empty object is reported as a failed trigger).
\<close>

theorem missing_run_id_is_reported_as_success:
  assumes "snd (on_post env) = Answered r"
      and "200 \<le> status_code r" and "status_code r < 300"
      and "json_body r = Some (JObj kvs)"
      and "dict_lookup kvs ''dag_run_id'' = None"
  shows "post env environ user w =
           (JsonResponse (SyncTriggered JNull (dict_get kvs ''state'')
                            (url (TriggerSyncView_get_airflow_config environ))) 200,
            after_post env (TriggerSyncView_get_airflow_config environ)
              (''Manual trigger by '' @ user @ '' via web UI'') w)
       \<and> success (content (fst (post env environ user w)))
       \<and> handle env environ opts w =
           (if kvs = [] then
              (Inr (), error FailedToTriggerRun
                 (after_post env (get_airflow_config environ)
                    ''Manual trigger via Django management command''
                    (info (Triggering (url (get_airflow_config environ))) w)))
            else if wait opts then
              (case wait_for_completion env (get_airflow_config environ) JNull (timeout opts)
                      (triggered env environ kvs w) of
                 (Inl e, w6) \<Rightarrow> (Inl e, w6)
               | (Inr fine, w6) \<Rightarrow>
                   if \<not> fine then (Inr (), error DidNotComplete w6) else (Inr (), w6))
            else (Inr (), triggered env environ kvs w))
       \<and> (INFO, DagRunTriggered JNull) \<in> set (out (triggered env environ kvs w))"
proof -
  have f: "fetch_json (snd (on_post env)) = Inr (JObj kvs)"
    using assms by (simp add: fetch_json_ok)
  have id: "dict_get kvs ''dag_run_id'' = JNull"
    using assms(5) by (simp add: dict_get_def)
  have p: "post env environ user w =
           (JsonResponse (SyncTriggered JNull (dict_get kvs ''state'')
                            (url (TriggerSyncView_get_airflow_config environ))) 200,
            after_post env (TriggerSyncView_get_airflow_config environ)
              (''Manual trigger by '' @ user @ '' via web UI'') w)"
    by (simp add: post_def Let_def f bind_def id after_post_def)
  have h: "handle env environ opts w =
           (if kvs = [] then
              (Inr (), error FailedToTriggerRun
                 (after_post env (get_airflow_config environ)
                    ''Manual trigger via Django management command''
                    (info (Triggering (url (get_airflow_config environ))) w)))
            else if wait opts then
              (case wait_for_completion env (get_airflow_config environ) JNull (timeout opts)
                      (triggered env environ kvs w) of
                 (Inl e, w6) \<Rightarrow> (Inl e, w6)
               | (Inr fine, w6) \<Rightarrow>
                   if \<not> fine then (Inr (), error DidNotComplete w6) else (Inr (), w6))
            else (Inr (), triggered env environ kvs w))"
    by (simp add: handle_eq [OF f] Let_def id)
  have t: "(INFO, DagRunTriggered JNull) \<in> set (out (triggered env environ kvs w))"
    by (simp add: triggered_def Let_def id info_def after_post_def)
  show ?thesis using p h t by simp
qed

theorem missing_run_id_is_reported_as_success_witness:
  "snd (on_post \<lparr>on_post = (40, Answered (Response 200 [] (Some (JObj [(''state'', JStr ''queued'')])))),
                 on_get = (\<lambda>k. (0, Refused))\<rparr>)
     = Answered (Response 200 [] (Some (JObj [(''state'', JStr ''queued'')])))
   \<and> 200 \<le> status_code (Response 200 [] (Some (JObj [(''state'', JStr ''queued'')])))
   \<and> status_code (Response 200 [] (Some (JObj [(''state'', JStr ''queued'')]))) < 300
   \<and> json_body (Response 200 [] (Some (JObj [(''state'', JStr ''queued'')])))
        = Some (JObj [(''state'', JStr ''queued'')])
   \<and> dict_lookup [(''state'', JStr ''queued'')] ''dag_run_id'' = None
   \<and> handle \<lparr>on_post = (40, Answered (Response 200 [] (Some (JObj [(''state'', JStr ''queued'')])))),
              on_get = (\<lambda>k. (0, Refused))\<rparr>
        Map.empty \<lparr>wait = False, timeout = 300\<rparr> \<lparr>clock = 0, out = [], sent = [], served = 0\<rparr>
      = (Inr (),
         \<lparr>clock = 40,
          out = [(INFO, Triggering ''http://localhost:8080''), (INFO, DagRunTriggered JNull),
                 (INFO, StateLine (JStr ''queued'')), (INFO, ViewInUI ''http://localhost:8080'' JNull)],
          sent = [(0, StartRun ''http://localhost:8080'' ''opencve'' 0
                        ''Manual trigger via Django management command''
                        (''airflow'', ''airflow'') 10)],
          served = 0\<rparr>)"
proof -
  have a: "snd (on_post \<lparr>on_post = (40, Answered (Response 200 [] (Some (JObj [(''state'', JStr ''queued'')])))),
                 on_get = (\<lambda>k. (0, Refused))\<rparr>)
     = Answered (Response 200 [] (Some (JObj [(''state'', JStr ''queued'')])))"
    by simp
  have b: "200 \<le> status_code (Response 200 [] (Some (JObj [(''state'', JStr ''queued'')])))"
    by simp
  have c: "status_code (Response 200 [] (Some (JObj [(''state'', JStr ''queued'')]))) < 300"
    by simp
  have d: "json_body (Response 200 [] (Some (JObj [(''state'', JStr ''queued'')])))
        = Some (JObj [(''state'', JStr ''queued'')])"
    by simp
  have e: "dict_lookup [(''state'', JStr ''queued'')] ''dag_run_id'' = None"
    by (simp add: dict_lookup_def)
  note t = missing_run_id_is_reported_as_success [OF a b c d e,
      where environ = Map.empty and opts = "\<lparr>wait = False, timeout = 300\<rparr>"
        and w = "\<lparr>clock = 0, out = [], sent = [], served = 0\<rparr>"]
  have "handle \<lparr>on_post = (40, Answered (Response 200 [] (Some (JObj [(''state'', JStr ''queued'')])))),
              on_get = (\<lambda>k. (0, Refused))\<rparr>
        Map.empty \<lparr>wait = False, timeout = 300\<rparr> \<lparr>clock = 0, out = [], sent = [], served = 0\<rparr>
      = (Inr (),
         \<lparr>clock = 40,
          out = [(INFO, Triggering ''http://localhost:8080''), (INFO, DagRunTriggered JNull),
                 (INFO, StateLine (JStr ''queued'')), (INFO, ViewInUI ''http://localhost:8080'' JNull)],
          sent = [(0, StartRun ''http://localhost:8080'' ''opencve'' 0
                        ''Manual trigger via Django management command''
                        (''airflow'', ''airflow'') 10)],
          served = 0\<rparr>)"
    using t
    by (simp add: triggered_def Let_def get_airflow_config_def lookup_default_def info_def
        after_post_def dict_get_def dict_lookup_def)
  with a b c d e show ?thesis by blast
qed

text \<open>
  The view answers a 200 response whose body lacks \<open>dag_run_id\<close> with its success
  payload, the run identifier being \<open>None\<close>.
\<close>

theorem missing_run_id_view_success:
  "post \<lparr>on_post = (40, Answered (Response 200 [] (Some (JObj [(''state'', JStr ''queued'')])))),
         on_get = (\<lambda>k. (0, Refused))\<rparr>
        Map.empty ''admin'' \<lparr>clock = 0, out = [], sent = [], served = 0\<rparr>
   = (JsonResponse (SyncTriggered JNull (JStr ''queued'') ''http://airflow-webserver:8080'') 200,
      \<lparr>clock = 40, out = [],
       sent = [(0, StartRun ''http://airflow-webserver:8080'' ''opencve'' 0
                     ''Manual trigger by admin via web UI'' (''airflow'', ''airflow'') 10)],
       served = 0\<rparr>)"
  by (simp add: post_def Let_def fetch_json_ok bind_def dict_get_def dict_lookup_def
      TriggerSyncView_get_airflow_config_def lookup_default_def)

text \<open>
  C6 (as amended). A trigger request answered with a 2xx response whose body is
  an object with the strings \<open>dag_run_id\<close> and \<open>state\<close> is reported with exactly
  these two values, by the view in its success payload and by the command, run
  without \<open>wait\<close>, in its lines. Either of them issues the trigger request, with
  \<open>timeout=10\<close>, and nothing else: no state query, no sleep, so the time spent is
  the time of that one call, whatever it is. Neither result holds an elapsed
  time.
\<close>

theorem fire_and_forget_reports_initial_state:
  assumes "snd (on_post env) = Answered r"
      and "200 \<le> status_code r" and "status_code r < 300"
      and "json_body r = Some (JObj kvs)"
      and "dict_lookup kvs ''dag_run_id'' = Some (JStr run_id)"
      and "dict_lookup kvs ''state'' = Some (JStr st)"
      and "\<not> wait opts"
  shows "post env environ user w =
           (JsonResponse (SyncTriggered (JStr run_id) (JStr st)
                            (url (TriggerSyncView_get_airflow_config environ))) 200,
            w\<lparr>clock := clock w + fst (on_post env),
              sent := sent w @
                [(clock w, StartRun (url (TriggerSyncView_get_airflow_config environ)) ''opencve''
                    (clock w) (''Manual trigger by '' @ user @ '' via web UI'')
                    (username (TriggerSyncView_get_airflow_config environ),
                     password (TriggerSyncView_get_airflow_config environ)) 10)]\<rparr>)
       \<and> handle env environ opts w =
           (Inr (),
            w\<lparr>clock := clock w + fst (on_post env),
              out := out w @
                [(INFO, Triggering (url (get_airflow_config environ))),
                 (INFO, DagRunTriggered (JStr run_id)),
                 (INFO, StateLine (JStr st)),
                 (INFO, ViewInUI (url (get_airflow_config environ)) (JStr run_id))],
              sent := sent w @
                [(clock w, StartRun (url (get_airflow_config environ)) ''opencve'' (clock w)
                    ''Manual trigger via Django management command''
                    (username (get_airflow_config environ),
                     password (get_airflow_config environ)) 10)]\<rparr>)"
proof -
  have f: "fetch_json (snd (on_post env)) = Inr (JObj kvs)"
    using assms by (simp add: fetch_json_ok)
  have ne: "kvs \<noteq> []"
    using assms(5) by (auto simp: dict_lookup_def)
  have g: "dict_get kvs ''dag_run_id'' = JStr run_id" "dict_get kvs ''state'' = JStr st"
    using assms(5,6) by (simp_all add: dict_get_def)
  have p: "post env environ user w =
           (JsonResponse (SyncTriggered (JStr run_id) (JStr st)
                            (url (TriggerSyncView_get_airflow_config environ))) 200,
            w\<lparr>clock := clock w + fst (on_post env),
              sent := sent w @
                [(clock w, StartRun (url (TriggerSyncView_get_airflow_config environ)) ''opencve''
                    (clock w) (''Manual trigger by '' @ user @ '' via web UI'')
                    (username (TriggerSyncView_get_airflow_config environ),
                     password (TriggerSyncView_get_airflow_config environ)) 10)]\<rparr>)"
    by (simp add: post_def Let_def f bind_def g)
  have h: "handle env environ opts w = (Inr (), triggered env environ kvs w)"
    using ne assms(7) by (simp add: handle_eq [OF f] Let_def)
  show ?thesis
    unfolding p h
    by (simp add: triggered_def Let_def g info_def after_post_def)
qed

theorem fire_and_forget_reports_initial_state_witness:
  "snd (on_post \<lparr>on_post = (40, Answered (Response 201 []
            (Some (JObj [(''dag_run_id'', JStr ''manual__2024-01-01''), (''state'', JStr ''queued'')])))),
          on_get = (\<lambda>k. (0, Refused))\<rparr>)
     = Answered (Response 201 []
            (Some (JObj [(''dag_run_id'', JStr ''manual__2024-01-01''), (''state'', JStr ''queued'')])))
   \<and> 200 \<le> status_code (Response 201 []
            (Some (JObj [(''dag_run_id'', JStr ''manual__2024-01-01''), (''state'', JStr ''queued'')])))
   \<and> status_code (Response 201 []
            (Some (JObj [(''dag_run_id'', JStr ''manual__2024-01-01''), (''state'', JStr ''queued'')]))) < 300
   \<and> json_body (Response 201 []
            (Some (JObj [(''dag_run_id'', JStr ''manual__2024-01-01''), (''state'', JStr ''queued'')])))
       = Some (JObj [(''dag_run_id'', JStr ''manual__2024-01-01''), (''state'', JStr ''queued'')])
   \<and> dict_lookup [(''dag_run_id'', JStr ''manual__2024-01-01''), (''state'', JStr ''queued'')]
         ''dag_run_id'' = Some (JStr ''manual__2024-01-01'')
   \<and> dict_lookup [(''dag_run_id'', JStr ''manual__2024-01-01''), (''state'', JStr ''queued'')]
         ''state'' = Some (JStr ''queued'')
   \<and> \<not> wait \<lparr>wait = False, timeout = 300\<rparr>
   \<and> fst (post \<lparr>on_post = (40, Answered (Response 201 []
            (Some (JObj [(''dag_run_id'', JStr ''manual__2024-01-01''), (''state'', JStr ''queued'')])))),
          on_get = (\<lambda>k. (0, Refused))\<rparr> Map.empty ''admin''
          \<lparr>clock = 0, out = [], sent = [], served = 0\<rparr>)
       = JsonResponse (SyncTriggered (JStr ''manual__2024-01-01'') (JStr ''queued'')
                         ''http://airflow-webserver:8080'') 200
   \<and> handle \<lparr>on_post = (40, Answered (Response 201 []
            (Some (JObj [(''dag_run_id'', JStr ''manual__2024-01-01''), (''state'', JStr ''queued'')])))),
          on_get = (\<lambda>k. (0, Refused))\<rparr> Map.empty \<lparr>wait = False, timeout = 300\<rparr>
          \<lparr>clock = 0, out = [], sent = [], served = 0\<rparr>
       = (Inr (),
          \<lparr>clock = 40,
           out = [(INFO, Triggering ''http://localhost:8080''),
                  (INFO, DagRunTriggered (JStr ''manual__2024-01-01'')),
                  (INFO, StateLine (JStr ''queued'')),
                  (INFO, ViewInUI ''http://localhost:8080'' (JStr ''manual__2024-01-01''))],
           sent = [(0, StartRun ''http://localhost:8080'' ''opencve'' 0
                         ''Manual trigger via Django management command''
                         (''airflow'', ''airflow'') 10)],
           served = 0\<rparr>)"
proof -
  let ?body = "[(''dag_run_id'', JStr ''manual__2024-01-01''), (''state'', JStr ''queued'')]"
  let ?r = "Response 201 [] (Some (JObj ?body))"
  let ?env = "\<lparr>on_post = (40, Answered ?r), on_get = (\<lambda>k. (0, Refused))\<rparr>"
  have a: "snd (on_post ?env) = Answered ?r" by simp
  have b: "200 \<le> status_code ?r" by simp
  have c: "status_code ?r < 300" by simp
  have d: "json_body ?r = Some (JObj ?body)" by simp
  have e: "dict_lookup ?body ''dag_run_id'' = Some (JStr ''manual__2024-01-01'')"
    by (simp add: dict_lookup_def)
  have f: "dict_lookup ?body ''state'' = Some (JStr ''queued'')"
    by (simp add: dict_lookup_def)
  have g: "\<not> wait \<lparr>wait = False, timeout = 300\<rparr>" by simp
  note t = fire_and_forget_reports_initial_state [OF a b c d e f g,
      where environ = Map.empty and user = "''admin''"
        and w = "\<lparr>clock = 0, out = [], sent = [], served = 0\<rparr>"]
  have p: "fst (post ?env Map.empty ''admin'' \<lparr>clock = 0, out = [], sent = [], served = 0\<rparr>)
       = JsonResponse (SyncTriggered (JStr ''manual__2024-01-01'') (JStr ''queued'')
                         ''http://airflow-webserver:8080'') 200"
    using t by (simp add: TriggerSyncView_get_airflow_config_def lookup_default_def)
  have h: "handle ?env Map.empty \<lparr>wait = False, timeout = 300\<rparr>
          \<lparr>clock = 0, out = [], sent = [], served = 0\<rparr>
       = (Inr (),
          \<lparr>clock = 40,
           out = [(INFO, Triggering ''http://localhost:8080''),
                  (INFO, DagRunTriggered (JStr ''manual__2024-01-01'')),
                  (INFO, StateLine (JStr ''queued'')),
                  (INFO, ViewInUI ''http://localhost:8080'' (JStr ''manual__2024-01-01''))],
           sent = [(0, StartRun ''http://localhost:8080'' ''opencve'' 0
                         ''Manual trigger via Django management command''
                         (''airflow'', ''airflow'') 10)],
           served = 0\<rparr>)"
    using t by (simp add: get_airflow_config_def lookup_default_def)
  from a b c d e f g p h show ?thesis by blast
qed

text \<open>
  The call is not bounded by the timeout it passes: when the service takes eleven
  seconds to deliver its 201 answer, without any single wait of ten seconds,
  \<open>handle\<close> returns after eleven seconds, and so does the view.
\<close>

theorem slow_trigger_outlasts_the_timeout:
  "handle \<lparr>on_post = (11000, Answered (Response 201 []
            (Some (JObj [(''dag_run_id'', JStr ''manual__2024-01-01''), (''state'', JStr ''queued'')])))),
          on_get = (\<lambda>k. (0, Refused))\<rparr> Map.empty \<lparr>wait = False, timeout = 300\<rparr>
          \<lparr>clock = 0, out = [], sent = [], served = 0\<rparr>
     = (Inr (),
        \<lparr>clock = 11000,
         out = [(INFO, Triggering ''http://localhost:8080''),
                (INFO, DagRunTriggered (JStr ''manual__2024-01-01'')),
                (INFO, StateLine (JStr ''queued'')),
                (INFO, ViewInUI ''http://localhost:8080'' (JStr ''manual__2024-01-01''))],
         sent = [(0, StartRun ''http://localhost:8080'' ''opencve'' 0
                       ''Manual trigger via Django management command''
                       (''airflow'', ''airflow'') 10)],
         served = 0\<rparr>)
   \<and> post \<lparr>on_post = (11000, Answered (Response 201 []
            (Some (JObj [(''dag_run_id'', JStr ''manual__2024-01-01''), (''state'', JStr ''queued'')])))),
          on_get = (\<lambda>k. (0, Refused))\<rparr> Map.empty ''admin''
          \<lparr>clock = 0, out = [], sent = [], served = 0\<rparr>
     = (JsonResponse (SyncTriggered (JStr ''manual__2024-01-01'') (JStr ''queued'')
                        ''http://airflow-webserver:8080'') 200,
        \<lparr>clock = 11000, out = [],
         sent = [(0, StartRun ''http://airflow-webserver:8080'' ''opencve'' 0
                       ''Manual trigger by admin via web UI'' (''airflow'', ''airflow'') 10)],
         served = 0\<rparr>)
   \<and> \<not> (11000::nat) \<le> 10 * 1000"
  by code_simp

text \<open>
  C9 (as amended). When the trigger request fails, and when \<open>wait\<close> is set and the
  wait returns \<open>False\<close> (the run failed, a state query failed, or the timeout was
  reached), \<open>handle\<close> writes an error line as its last line and returns, so the
  process ends with exit status 0: the failure is reported by the error lines
  only.
\<close>

theorem reported_failure_exits_with_status_zero:
  "(fetch_json (snd (on_post env)) = Inl e \<longrightarrow>
       exit_status (fst (handle env environ opts w)) = 0
     \<and> last (out (snd (handle env environ opts w))) = (ERROR, FailedToTriggerRun))
   \<and> (fetch_json (snd (on_post env')) = Inr (JObj kvs) \<and> kvs \<noteq> [] \<and> wait opts'
       \<and> fst (wait_for_completion env' (get_airflow_config environ) (dict_get kvs ''dag_run_id'')
                 (timeout opts') (triggered env' environ kvs w)) = Inr False \<longrightarrow>
       exit_status (fst (handle env' environ opts' w)) = 0
     \<and> last (out (snd (handle env' environ opts' w))) = (ERROR, DidNotComplete))"
proof -
  have "exit_status (fst (handle env environ opts w)) = 0
     \<and> last (out (snd (handle env environ opts w))) = (ERROR, FailedToTriggerRun)"
    if "fetch_json (snd (on_post env)) = Inl e"
    by (simp add: handle_failed_trigger [OF that] exit_status_def error_def)
  moreover have "exit_status (fst (handle env' environ opts' w)) = 0
     \<and> last (out (snd (handle env' environ opts' w))) = (ERROR, DidNotComplete)"
    if f: "fetch_json (snd (on_post env')) = Inr (JObj kvs)" and "kvs \<noteq> []" "wait opts'"
      and r: "fst (wait_for_completion env' (get_airflow_config environ) (dict_get kvs ''dag_run_id'')
                 (timeout opts') (triggered env' environ kvs w)) = Inr False"
  proof -
    obtain w6 where "wait_for_completion env' (get_airflow_config environ)
        (dict_get kvs ''dag_run_id'') (timeout opts') (triggered env' environ kvs w) = (Inr False, w6)"
      using r by (metis prod.collapse)
    then show ?thesis
      using that(2,3) by (simp add: handle_eq [OF f] Let_def exit_status_def error_def)
  qed
  ultimately show ?thesis by blast
qed

theorem reported_failure_exits_with_status_zero_witness:
  "fetch_json (snd (on_post \<lparr>on_post = (3, Refused), on_get = (\<lambda>k. (0, Refused))\<rparr>))
     = Inl ConnectionError
   \<and> fetch_json (snd (on_post \<lparr>on_post = (40, Answered (Response 201 []
            (Some (JObj [(''dag_run_id'', JStr ''manual__2024-01-01''), (''state'', JStr ''queued'')])))),
          on_get = (\<lambda>k. (10, Answered (Response 200 [] (Some (JObj [(''state'', JStr ''failed'')])))))\<rparr>))
     = Inr (JObj [(''dag_run_id'', JStr ''manual__2024-01-01''), (''state'', JStr ''queued'')])
   \<and> [(''dag_run_id'', JStr ''manual__2024-01-01''), (''state'', JStr ''queued'')] \<noteq> []
   \<and> wait \<lparr>wait = True, timeout = 10\<rparr>
   \<and> fst (wait_for_completion
          \<lparr>on_post = (40, Answered (Response 201 []
            (Some (JObj [(''dag_run_id'', JStr ''manual__2024-01-01''), (''state'', JStr ''queued'')])))),
           on_get = (\<lambda>k. (10, Answered (Response 200 [] (Some (JObj [(''state'', JStr ''failed'')])))))\<rparr>
          (get_airflow_config Map.empty)
          (dict_get [(''dag_run_id'', JStr ''manual__2024-01-01''), (''state'', JStr ''queued'')]
             ''dag_run_id'')
          (timeout \<lparr>wait = True, timeout = 10\<rparr>)
          (triggered
             \<lparr>on_post = (40, Answered (Response 201 []
               (Some (JObj [(''dag_run_id'', JStr ''manual__2024-01-01''), (''state'', JStr ''queued'')])))),
              on_get = (\<lambda>k. (10, Answered (Response 200 [] (Some (JObj [(''state'', JStr ''failed'')])))))\<rparr>
             Map.empty
             [(''dag_run_id'', JStr ''manual__2024-01-01''), (''state'', JStr ''queued'')]
             \<lparr>clock = 0, out = [], sent = [], served = 0\<rparr>)) = Inr False
   \<and> exit_status (fst (handle \<lparr>on_post = (3, Refused), on_get = (\<lambda>k. (0, Refused))\<rparr> Map.empty
          \<lparr>wait = False, timeout = 300\<rparr> \<lparr>clock = 0, out = [], sent = [], served = 0\<rparr>)) = 0
   \<and> exit_status (fst (handle
          \<lparr>on_post = (40, Answered (Response 201 []
            (Some (JObj [(''dag_run_id'', JStr ''manual__2024-01-01''), (''state'', JStr ''queued'')])))),
           on_get = (\<lambda>k. (10, Answered (Response 200 [] (Some (JObj [(''state'', JStr ''failed'')])))))\<rparr>
          Map.empty \<lparr>wait = True, timeout = 10\<rparr>
          \<lparr>clock = 0, out = [], sent = [], served = 0\<rparr>)) = 0
   \<and> last (out (snd (handle
          \<lparr>on_post = (40, Answered (Response 201 []
            (Some (JObj [(''dag_run_id'', JStr ''manual__2024-01-01''), (''state'', JStr ''queued'')])))),
           on_get = (\<lambda>k. (10, Answered (Response 200 [] (Some (JObj [(''state'', JStr ''failed'')])))))\<rparr>
          Map.empty \<lparr>wait = True, timeout = 10\<rparr>
          \<lparr>clock = 0, out = [], sent = [], served = 0\<rparr>))) = (ERROR, DidNotComplete)"
proof -
  let ?body = "[(''dag_run_id'', JStr ''manual__2024-01-01''), (''state'', JStr ''queued'')]"
  let ?env = "\<lparr>on_post = (3, Refused), on_get = (\<lambda>k. (0, Refused))\<rparr>"
  let ?env' = "\<lparr>on_post = (40, Answered (Response 201 [] (Some (JObj ?body)))),
           on_get = (\<lambda>k. (10, Answered (Response 200 [] (Some (JObj [(''state'', JStr ''failed'')])))))\<rparr>"
  let ?w = "\<lparr>clock = 0, out = [], sent = [], served = 0\<rparr>"
  have a: "fetch_json (snd (on_post ?env)) = Inl ConnectionError"
    by (simp add: fetch_json_def send_def bind_def)
  have b: "fetch_json (snd (on_post ?env')) = Inr (JObj ?body)"
    by (simp add: fetch_json_ok)
  have c: "?body \<noteq> []" by simp
  have d: "wait \<lparr>wait = True, timeout = 10\<rparr>" by simp
  have e: "fst (wait_for_completion ?env' (get_airflow_config Map.empty)
          (dict_get ?body ''dag_run_id'') (timeout \<lparr>wait = True, timeout = 10\<rparr>)
          (triggered ?env' Map.empty ?body ?w)) = Inr False"
    by code_simp
  note t = reported_failure_exits_with_status_zero
      [where env = ?env and e = ConnectionError and env' = ?env' and kvs = ?body
         and opts' = "\<lparr>wait = True, timeout = 10\<rparr>" and environ = Map.empty and w = ?w
         and opts = "\<lparr>wait = False, timeout = 300\<rparr>"]
  from t a have f: "exit_status (fst (handle ?env Map.empty \<lparr>wait = False, timeout = 300\<rparr> ?w)) = 0"
    by blast
  from t b c d e have g: "exit_status (fst (handle ?env' Map.empty \<lparr>wait = True, timeout = 10\<rparr> ?w)) = 0
     \<and> last (out (snd (handle ?env' Map.empty \<lparr>wait = True, timeout = 10\<rparr> ?w))) = (ERROR, DidNotComplete)"
    by blast
  from a b c d e f g show ?thesis by blast
qed

text \<open>
  A refused trigger request: \<open>handle\<close> returns and the exit status is 0.
\<close>

theorem refused_trigger_exits_with_status_zero:
  "exit_status (fst (handle \<lparr>on_post = (3, Refused), on_get = (\<lambda>k. (0, Refused))\<rparr> Map.empty
        \<lparr>wait = True, timeout = 300\<rparr> \<lparr>clock = 0, out = [], sent = [], served = 0\<rparr>)) = 0"
  by code_simp

lemma wait_for_completion_sent:
  "\<exists>qs. sent (snd (wait_for_completion env cfg rid deadline w)) = sent w @ qs
      \<and> (\<forall>x\<in>set qs. snd x = RunState (url cfg) ''opencve'' rid (username cfg, password cfg) 10
                     \<and> int (fst x) - int (clock w) < deadline * 1000)
      \<and> served (snd (wait_for_completion env cfg rid deadline w)) = served w + length qs"
  using wait_loop_sent [of env cfg rid deadline "clock w" "info (Waiting deadline) w"]
  by (simp add: wait_for_completion_def Let_def info_def)

lemma handle_sent:
  "\<exists>qs. sent (snd (handle env environ opts w)) =
          sent w @ (clock w, StartRun (url (get_airflow_config environ)) ''opencve'' (clock w)
                      ''Manual trigger via Django management command''
                      (username (get_airflow_config environ), password (get_airflow_config environ)) 10) # qs
      \<and> (qs \<noteq> [] \<longrightarrow> (\<exists>kvs. fetch_json (snd (on_post env)) = Inr (JObj kvs)
            \<and> (\<forall>x\<in>set qs. snd x = RunState (url (get_airflow_config environ)) ''opencve''
                    (dict_get kvs ''dag_run_id'')
                    (username (get_airflow_config environ), password (get_airflow_config environ)) 10)))"
proof (cases "fetch_json (snd (on_post env))")
  case (Inl e)
  show ?thesis
    by (rule exI [of _ "[]"])
       (simp add: handle_failed_trigger [OF Inl] after_post_def info_def error_def split: exn.splits)
next
  case (Inr v)
  let ?cfg = "get_airflow_config environ"
  let ?w2 = "after_post env ?cfg ''Manual trigger via Django management command''
               (info (Triggering (url ?cfg)) w)"
  have w2: "sent ?w2 = sent w @ [(clock w, StartRun (url ?cfg) ''opencve'' (clock w)
                      ''Manual trigger via Django management command''
                      (username ?cfg, password ?cfg) 10)]"
    by (simp add: after_post_def info_def)
  show ?thesis
  proof (cases "\<exists>kvs. v = JObj kvs \<and> kvs \<noteq> [] \<and> wait opts")
    case False
    then have "sent (snd (handle env environ opts w)) = sent ?w2"
      by (cases v)
         (auto simp: handle_eq [OF Inr] Let_def error_def triggered_def info_def after_post_def)
    with w2 show ?thesis by (intro exI [of _ "[]"]) simp
  next
    case True
    then obtain kvs where v: "v = JObj kvs" "kvs \<noteq> []" "wait opts" by blast
    let ?rid = "dict_get kvs ''dag_run_id''"
    let ?w5 = "triggered env environ kvs w"
    obtain qs where qs:
      "sent (snd (wait_for_completion env ?cfg ?rid (timeout opts) ?w5)) = sent ?w5 @ qs"
      "\<forall>x\<in>set qs. snd x = RunState (url ?cfg) ''opencve'' ?rid (username ?cfg, password ?cfg) 10"
      using wait_for_completion_sent [of env ?cfg ?rid "timeout opts" ?w5] by blast
    have w5: "sent ?w5 = sent ?w2"
      by (simp add: triggered_def Let_def info_def)
    obtain r w6 where r: "wait_for_completion env ?cfg ?rid (timeout opts) ?w5 = (r, w6)"
      by (cases "wait_for_completion env ?cfg ?rid (timeout opts) ?w5")
    have "sent (snd (handle env environ opts w)) = sent w6"
      using v r Inr by (cases r) (simp_all add: handle_eq [OF Inr] Let_def error_def)
    with qs r w5 w2 have "sent (snd (handle env environ opts w)) =
          sent w @ (clock w, StartRun (url ?cfg) ''opencve'' (clock w)
                      ''Manual trigger via Django management command''
                      (username ?cfg, password ?cfg) 10) # qs"
      by simp
    with qs(2) Inr v(1) show ?thesis by (intro exI [of _ qs]) auto
  qed
qed

text \<open>
  C8. Every state query that \<open>handle\<close> issues carries the run identifier read
  from the body of the trigger response, \<open>dag_run.get("dag_run_id")\<close>: the value is
  read once and passed unchanged to every query of the wait.
\<close>

theorem state_queries_use_the_triggered_run_id:
  assumes "(t, RunState u d rid a tmo) \<in> set (sent (snd (handle env environ opts w)))"
      and "(t, RunState u d rid a tmo) \<notin> set (sent w)"
  shows "\<exists>kvs. fetch_json (snd (on_post env)) = Inr (JObj kvs) \<and> rid = dict_get kvs ''dag_run_id''"
proof -
  from handle_sent [of env environ opts w] obtain qs where
    s: "sent (snd (handle env environ opts w)) =
          sent w @ (clock w, StartRun (url (get_airflow_config environ)) ''opencve'' (clock w)
                      ''Manual trigger via Django management command''
                      (username (get_airflow_config environ), password (get_airflow_config environ)) 10) # qs"
    and q: "qs \<noteq> [] \<longrightarrow> (\<exists>kvs. fetch_json (snd (on_post env)) = Inr (JObj kvs)
            \<and> (\<forall>x\<in>set qs. snd x = RunState (url (get_airflow_config environ)) ''opencve''
                    (dict_get kvs ''dag_run_id'')
                    (username (get_airflow_config environ), password (get_airflow_config environ)) 10))"
    by blast
  from assms s have m: "(t, RunState u d rid a tmo) \<in> set qs" by auto
  then have "qs \<noteq> []" by auto
  with q obtain kvs where k: "fetch_json (snd (on_post env)) = Inr (JObj kvs)"
    "\<forall>x\<in>set qs. snd x = RunState (url (get_airflow_config environ)) ''opencve''
                    (dict_get kvs ''dag_run_id'')
                    (username (get_airflow_config environ), password (get_airflow_config environ)) 10"
    by blast
  from k(2) m have "rid = dict_get kvs ''dag_run_id''" by fastforce
  with k(1) show ?thesis by blast
qed

theorem state_queries_use_the_triggered_run_id_witness:
  "(2040, RunState ''http://localhost:8080'' ''opencve'' (JStr ''manual__2024-01-01'')
            (''airflow'', ''airflow'') 10)
     \<in> set (sent (snd (handle
          \<lparr>on_post = (40, Answered (Response 201 []
            (Some (JObj [(''dag_run_id'', JStr ''manual__2024-01-01''), (''state'', JStr ''queued'')])))),
           on_get = (\<lambda>k. if k = 0
              then (0, Answered (Response 200 [] (Some (JObj [(''state'', JStr ''running'')]))))
              else (0, Answered (Response 200 [] (Some (JObj [(''state'', JStr ''success'')])))))\<rparr>
          Map.empty \<lparr>wait = True, timeout = 10\<rparr>
          \<lparr>clock = 0, out = [], sent = [], served = 0\<rparr>)))
   \<and> (2040, RunState ''http://localhost:8080'' ''opencve'' (JStr ''manual__2024-01-01'')
            (''airflow'', ''airflow'') 10)
     \<notin> set (sent \<lparr>clock = 0, out = [], sent = [], served = 0\<rparr>)
   \<and> (\<exists>kvs. fetch_json (snd (on_post
          \<lparr>on_post = (40, Answered (Response 201 []
            (Some (JObj [(''dag_run_id'', JStr ''manual__2024-01-01''), (''state'', JStr ''queued'')])))),
           on_get = (\<lambda>k. if k = 0
              then (0, Answered (Response 200 [] (Some (JObj [(''state'', JStr ''running'')]))))
              else (0, Answered (Response 200 [] (Some (JObj [(''state'', JStr ''success'')])))))\<rparr>))
          = Inr (JObj kvs)
        \<and> JStr ''manual__2024-01-01'' = dict_get kvs ''dag_run_id'')"
proof -
  let ?q = "(2040::nat, RunState ''http://localhost:8080'' ''opencve'' (JStr ''manual__2024-01-01'')
            (''airflow'', ''airflow'') 10)"
  let ?env = "\<lparr>on_post = (40, Answered (Response 201 []
            (Some (JObj [(''dag_run_id'', JStr ''manual__2024-01-01''), (''state'', JStr ''queued'')])))),
           on_get = (\<lambda>k. if k = 0
              then (0, Answered (Response 200 [] (Some (JObj [(''state'', JStr ''running'')]))))
              else (0, Answered (Response 200 [] (Some (JObj [(''state'', JStr ''success'')])))))\<rparr>"
  let ?w = "\<lparr>clock = 0, out = [], sent = [], served = 0\<rparr>"
  have a: "?q \<in> set (sent (snd (handle ?env Map.empty \<lparr>wait = True, timeout = 10\<rparr> ?w)))"
    by code_simp
  have b: "?q \<notin> set (sent ?w)" by simp
  from state_queries_use_the_triggered_run_id [OF a b] a b show ?thesis by blast
qed

section \<open>A wait that never sees a terminal state\<close>

lemma pending_state:
  "pending reply \<Longrightarrow>
     \<exists>s. read_state reply = Inr s \<and> s \<noteq> JNull \<and> s \<noteq> JStr ''success'' \<and> s \<noteq> JStr ''failed''"
  by (auto simp: pending_def split: sum.splits)

lemma wait_loop_all_pending:
  assumes "\<forall>k. pending (snd (on_get env k))"
  shows "fst (wait_loop env cfg rid deadline st w) = Inr False
       \<and> last (out (snd (wait_loop env cfg rid deadline st w))) = (ERROR, TimeoutReached deadline)
       \<and> int (served (snd (wait_loop env cfg rid deadline st w))) - int (served w)
            \<le> max 0 ((deadline * 1000 - (int (clock w) - int st) + 1999) div 2000)
       \<and> ((\<forall>k. fst (on_get env k) = 0) \<longrightarrow>
            int (served (snd (wait_loop env cfg rid deadline st w))) - int (served w)
              = max 0 ((deadline * 1000 - (int (clock w) - int st) + 1999) div 2000))"
  using assms
proof (induction env cfg rid deadline st w rule: wait_loop.induct)
  case (1 env cfg rid deadline st w)
  show ?case
  proof (cases "int (clock w) - int st < deadline * 1000")
    case False
    then have "(deadline * 1000 - (int (clock w) - int st) + 1999) div 2000 \<le> 0"
      by simp
    with False show ?thesis by (simp add: wait_loop_timeout error_def)
  next
    case True
    from "1.prems" pending_state obtain s where
      s: "read_state (snd (on_get env (served w))) = Inr s"
         "s \<noteq> JNull" "s \<noteq> JStr ''success''" "s \<noteq> JStr ''failed''"
      by blast
    let ?w1 = "after_query env cfg rid w"
    let ?w2 = "sleep 2 (info (StateElapsed s (clock ?w1 - st)) ?w1)"
    let ?lat = "fst (on_get env (served w))"
    have g: "get_dag_run_state env cfg rid w = (Inr s, ?w1)"
      by (simp add: get_dag_run_state_eq s)
    have eq: "wait_loop env cfg rid deadline st w = wait_loop env cfg rid deadline st ?w2"
      using wait_loop_state [OF True s(1), of cfg rid] s by (simp add: Let_def)
    note IH = "1.IH" [OF True g [symmetric] refl s(2,3,4) "1.prems"]
    have c2: "int (clock ?w2) = int (clock w) + int ?lat + 2000"
      and s2: "served ?w2 = Suc (served w)"
      by (simp_all add: sleep_def info_def after_query_def)
    let ?d = "deadline * 1000 - (int (clock w) - int st)"
    have d: "0 < ?d" using True by simp
    have d2: "deadline * 1000 - (int (clock ?w2) - int st) + 1999 = ?d - int ?lat - 1"
      using c2 by simp
    let ?n = "int (served (snd (wait_loop env cfg rid deadline st ?w2)))"
    from IH have le: "?n - int (served ?w2) \<le> max 0 ((?d - int ?lat - 1) div 2000)"
      unfolding d2 by blast
    from IH have exact: "(\<forall>k. fst (on_get env k) = 0) \<longrightarrow>
        ?n - int (served ?w2) = max 0 ((?d - int ?lat - 1) div 2000)"
      unfolding d2 by blast
    have a1: "1 + max 0 ((?d - int ?lat - 1) div 2000) \<le> max 0 ((?d + 1999) div 2000)"
      using d by (cases "2000 \<le> ?d - int ?lat - 1") linarith+
    have a2: "?lat = 0 \<Longrightarrow> 1 + max 0 ((?d - int ?lat - 1) div 2000) = max 0 ((?d + 1999) div 2000)"
      using d by linarith
    have "?n - int (served w) \<le> max 0 ((?d + 1999) div 2000)"
      using le a1 s2 by linarith
    moreover have "(\<forall>k. fst (on_get env k) = 0) \<longrightarrow>
         ?n - int (served w) = max 0 ((?d + 1999) div 2000)"
      using exact a2 s2 by auto
    ultimately show ?thesis using IH by (simp add: eq)
  qed
qed

lemma ceiling_half: "\<lceil>(of_int d :: rat) / 2\<rceil> = (d + 1) div 2"
proof -
  have "\<lceil>(of_int d :: rat) / of_int 2\<rceil> = - (- d div 2)"
    by (rule ceiling_divide_eq_div)
  then show ?thesis by simp
qed


lemma poll_bound: "0 \<le> (d::int) \<Longrightarrow> max 0 ((d * 1000 + 1999) div 2000) = (d + 1) div 2"
  by linarith

text \<open>
  C2 (as amended). When every state query reports a state other than \<open>success\<close>
  and \<open>failed\<close> and the deadline is not negative, \<open>wait_for_completion\<close> returns
  \<open>False\<close> and its last line reports the timeout with the deadline. The deadline
  is checked before each query, so every query starts less than the deadline
  after the start of the wait. The loop sleeps two seconds after each query, so
  the number of queries is at most the deadline divided by two, rounded up; it is
  exactly that number when the queries themselves take no time, and smaller when
  they are slow enough.
\<close>

theorem never_terminal_wait_times_out:
  assumes "\<forall>k. pending (snd (on_get env k))" and "0 \<le> deadline"
  shows "fst (wait_for_completion env cfg rid deadline w) = Inr False
       \<and> last (out (snd (wait_for_completion env cfg rid deadline w)))
            = (ERROR, TimeoutReached deadline)
       \<and> (\<forall>x\<in>set (drop (length (sent w)) (sent (snd (wait_for_completion env cfg rid deadline w)))).
             int (fst x) - int (clock w) < deadline * 1000)
       \<and> int (served (snd (wait_for_completion env cfg rid deadline w))) - int (served w)
            \<le> \<lceil>(of_int deadline :: rat) / 2\<rceil>
       \<and> ((\<forall>k. fst (on_get env k) = 0) \<longrightarrow>
            int (served (snd (wait_for_completion env cfg rid deadline w))) - int (served w)
              = \<lceil>(of_int deadline :: rat) / 2\<rceil>)"
proof -
  let ?w1 = "info (Waiting deadline) w"
  have eq: "wait_for_completion env cfg rid deadline w =
              wait_loop env cfg rid deadline (clock w) ?w1"
    by (simp add: wait_for_completion_def Let_def info_def)
  have w1: "clock ?w1 = clock w" "served ?w1 = served w"
    by (simp_all add: info_def)
  note p = wait_loop_all_pending [OF assms(1), of cfg rid deadline "clock w" ?w1]
  have b: "max 0 ((deadline * 1000 - (int (clock ?w1) - int (clock w)) + 1999) div 2000)
             = \<lceil>(of_int deadline :: rat) / 2\<rceil>"
    using poll_bound [OF assms(2)] by (simp add: w1 ceiling_half)
  obtain qs where qs:
    "sent (snd (wait_for_completion env cfg rid deadline w)) = sent w @ qs"
    "\<forall>x\<in>set qs. int (fst x) - int (clock w) < deadline * 1000"
    using wait_for_completion_sent [of env cfg rid deadline w] by blast
  have starts: "\<forall>x\<in>set (drop (length (sent w)) (sent (snd (wait_for_completion env cfg rid deadline w)))).
             int (fst x) - int (clock w) < deadline * 1000"
    using qs by simp
  from p b have "fst (wait_for_completion env cfg rid deadline w) = Inr False"
    and "last (out (snd (wait_for_completion env cfg rid deadline w)))
            = (ERROR, TimeoutReached deadline)"
    and "int (served (snd (wait_for_completion env cfg rid deadline w))) - int (served w)
            \<le> \<lceil>(of_int deadline :: rat) / 2\<rceil>"
    and "(\<forall>k. fst (on_get env k) = 0) \<longrightarrow>
            int (served (snd (wait_for_completion env cfg rid deadline w))) - int (served w)
              = \<lceil>(of_int deadline :: rat) / 2\<rceil>"
    unfolding eq w1 by simp_all
  with starts show ?thesis by blast
qed

theorem never_terminal_wait_times_out_witness:
  "(\<forall>k. pending (snd (on_get \<lparr>on_post = (0, Refused),
      on_get = (\<lambda>k. (0, Answered (Response 200 [] (Some (JObj [(''state'', JStr ''running'')])))))\<rparr> k)))
   \<and> (0::int) \<le> 5
   \<and> (\<forall>k. fst (on_get \<lparr>on_post = (0, Refused),
      on_get = (\<lambda>k. (0, Answered (Response 200 [] (Some (JObj [(''state'', JStr ''running'')])))))\<rparr> k) = 0)
   \<and> wait_for_completion
     \<lparr>on_post = (0, Refused),
      on_get = (\<lambda>k. (0, Answered (Response 200 [] (Some (JObj [(''state'', JStr ''running'')])))))\<rparr>
     \<lparr>url = ''http://localhost:8080'', username = ''airflow'', password = ''airflow''\<rparr>
     (JStr ''r1'') 5 \<lparr>clock = 0, out = [], sent = [], served = 0\<rparr>
   = (Inr False,
      \<lparr>clock = 6000,
       out = [(INFO, Waiting 5), (INFO, StateElapsed (JStr ''running'') 0),
              (INFO, StateElapsed (JStr ''running'') 2000),
              (INFO, StateElapsed (JStr ''running'') 4000),
              (ERROR, TimeoutReached 5)],
       sent = [(0, RunState ''http://localhost:8080'' ''opencve'' (JStr ''r1'')
                      (''airflow'', ''airflow'') 10),
               (2000, RunState ''http://localhost:8080'' ''opencve'' (JStr ''r1'')
                      (''airflow'', ''airflow'') 10),
               (4000, RunState ''http://localhost:8080'' ''opencve'' (JStr ''r1'')
                      (''airflow'', ''airflow'') 10)],
       served = 3\<rparr>)
   \<and> int (served (snd (wait_for_completion
     \<lparr>on_post = (0, Refused),
      on_get = (\<lambda>k. (0, Answered (Response 200 [] (Some (JObj [(''state'', JStr ''running'')])))))\<rparr>
     \<lparr>url = ''http://localhost:8080'', username = ''airflow'', password = ''airflow''\<rparr>
     (JStr ''r1'') 5 \<lparr>clock = 0, out = [], sent = [], served = 0\<rparr>)))
       - int (served \<lparr>clock = 0, out = [], sent = [], served = 0\<rparr>)
     = \<lceil>(of_int 5 :: rat) / 2\<rceil>"
proof -
  let ?env = "\<lparr>on_post = (0, Refused),
      on_get = (\<lambda>k. (0, Answered (Response 200 [] (Some (JObj [(''state'', JStr ''running'')])))))\<rparr>"
  have a: "\<forall>k. pending (snd (on_get ?env k))"
    by (simp add: pending_def read_state_def fetch_json_ok bind_def dict_get_def dict_lookup_def)
  have b: "(0::int) \<le> 5" by simp
  have c: "\<forall>k. fst (on_get ?env k) = 0" by simp
  have d: "wait_for_completion ?env
     \<lparr>url = ''http://localhost:8080'', username = ''airflow'', password = ''airflow''\<rparr>
     (JStr ''r1'') 5 \<lparr>clock = 0, out = [], sent = [], served = 0\<rparr>
   = (Inr False,
      \<lparr>clock = 6000,
       out = [(INFO, Waiting 5), (INFO, StateElapsed (JStr ''running'') 0),
              (INFO, StateElapsed (JStr ''running'') 2000),
              (INFO, StateElapsed (JStr ''running'') 4000),
              (ERROR, TimeoutReached 5)],
       sent = [(0, RunState ''http://localhost:8080'' ''opencve'' (JStr ''r1'')
                      (''airflow'', ''airflow'') 10),
               (2000, RunState ''http://localhost:8080'' ''opencve'' (JStr ''r1'')
                      (''airflow'', ''airflow'') 10),
               (4000, RunState ''http://localhost:8080'' ''opencve'' (JStr ''r1'')
                      (''airflow'', ''airflow'') 10)],
       served = 3\<rparr>)"
    by code_simp
  from never_terminal_wait_times_out [OF a b,
      of "\<lparr>url = ''http://localhost:8080'', username = ''airflow'', password = ''airflow''\<rparr>"
         "JStr ''r1''" "\<lparr>clock = 0, out = [], sent = [], served = 0\<rparr>"] c
  have e: "int (served (snd (wait_for_completion ?env
     \<lparr>url = ''http://localhost:8080'', username = ''airflow'', password = ''airflow''\<rparr>
     (JStr ''r1'') 5 \<lparr>clock = 0, out = [], sent = [], served = 0\<rparr>)))
       - int (served \<lparr>clock = 0, out = [], sent = [], served = 0\<rparr>)
     = \<lceil>(of_int 5 :: rat) / 2\<rceil>"
    by blast
  from a b c d e show ?thesis by blast
qed

text \<open>
  With queries that take two seconds each and a deadline of four seconds the loop
  issues one query, not two: the second check of the deadline comes at four
  seconds.
\<close>

theorem slow_queries_mean_fewer_polls:
  "wait_for_completion
     \<lparr>on_post = (0, Refused),
      on_get = (\<lambda>k. (2000, Answered (Response 200 [] (Some (JObj [(''state'', JStr ''running'')])))))\<rparr>
     \<lparr>url = ''http://localhost:8080'', username = ''airflow'', password = ''airflow''\<rparr>
     (JStr ''r1'') 4 \<lparr>clock = 0, out = [], sent = [], served = 0\<rparr>
   = (Inr False,
      \<lparr>clock = 4000,
       out = [(INFO, Waiting 4), (INFO, StateElapsed (JStr ''running'') 2000),
              (ERROR, TimeoutReached 4)],
       sent = [(0, RunState ''http://localhost:8080'' ''opencve'' (JStr ''r1'')
                      (''airflow'', ''airflow'') 10)],
       served = 1\<rparr>)
   \<and> \<lceil>(of_int 4 :: rat) / 2\<rceil> = 2"
proof -
  have "wait_for_completion
     \<lparr>on_post = (0, Refused),
      on_get = (\<lambda>k. (2000, Answered (Response 200 [] (Some (JObj [(''state'', JStr ''running'')])))))\<rparr>
     \<lparr>url = ''http://localhost:8080'', username = ''airflow'', password = ''airflow''\<rparr>
     (JStr ''r1'') 4 \<lparr>clock = 0, out = [], sent = [], served = 0\<rparr>
   = (Inr False,
      \<lparr>clock = 4000,
       out = [(INFO, Waiting 4), (INFO, StateElapsed (JStr ''running'') 2000),
              (ERROR, TimeoutReached 4)],
       sent = [(0, RunState ''http://localhost:8080'' ''opencve'' (JStr ''r1'')
                      (''airflow'', ''airflow'') 10)],
       served = 1\<rparr>)"
    by code_simp
  moreover have "\<lceil>(of_int 4 :: rat) / 2\<rceil> = 2" by simp
  ultimately show ?thesis by blast
qed

end
